theory Spec2Isabelle
  imports Main "HOL-Library.Product_Lexorder"
begin

section \<open>Temporal.PlainYearMonth: data model\<close>

text \<open>
  A shallow embedding of \<^verbatim>\<open>js/src/builtin/temporal/PlainYearMonth.cpp\<close>.

  Numbers: the ISO fields are \<^verbatim>\<open>int32_t\<close>, the duration fields \<^verbatim>\<open>int64_t\<close> or
  integer-valued \<^verbatim>\<open>double\<close>. The file only compares them, adds one to or subtracts one from
  a day of month, and negates them, on values that the collaborators keep far inside the
  machine ranges, so they are modelled as \<open>int\<close>.

  Failure: a C++ function returning \<^verbatim>\<open>false\<close> or \<^verbatim>\<open>nullptr\<close> with an exception pending on
  the context is a result \<open>Inl e\<close>; success is \<open>Inr v\<close>. Out-of-memory failures of object
  allocation and of cross-compartment wrapping are not modelled, and a heap object is
  identified with the values of its slots.
\<close>

subsection \<open>Errors\<close>

text \<open>
  The errors reported in this file are constructors of their own, named after the message
  they report; the exception class of each message is the one the specification gives
  (the message table is not part of this file). An exception raised by a collaborator
  outside this file is propagated unchanged and is opaque here: \<open>Thrown x\<close>.
\<close>

datatype 'x error =
    RangeError_PlainYearMonthInvalid
  | RangeError_CalendarIncompatible string string
  | RangeError_InvalidISODate
  | TypeError_UnexpectedType
  | TypeError_ObjectRequired
  | Thrown 'x

text \<open>A call of a collaborator: \<^verbatim>\<open>if (!F(cx, ...)) return false;\<close> keeps its exception.\<close>

definition call :: "'x + 'a \<Rightarrow> 'x error + 'a" where
  "call r = (case r of Inl x \<Rightarrow> Inl (Thrown x) | Inr v \<Rightarrow> Inr v)"

subsection \<open>ISO dates and calendars\<close>

record PlainDate =
  year :: int
  month :: int
  day :: int

text \<open>
  Modelled from the spec: \<^verbatim>\<open>CalendarValue\<close>, \<^verbatim>\<open>ToTemporalCalendarIdentifier\<close> and
  \<^verbatim>\<open>CalendarEquals\<close> are declared in Calendar.h, which is missing. The specification makes a
  calendar reference an identifier with a dispatch capability, two references being equal
  iff their canonical identifier strings are equal.
\<close>

datatype CalendarValue = CalendarValue string

definition ISO8601 :: CalendarValue where
  "ISO8601 = CalendarValue ''iso8601''"

fun ToTemporalCalendarIdentifier :: "CalendarValue \<Rightarrow> string" where
  "ToTemporalCalendarIdentifier (CalendarValue ident) = ident"

definition CalendarEquals :: "CalendarValue \<Rightarrow> CalendarValue \<Rightarrow> bool" where
  "CalendarEquals one two =
     (ToTemporalCalendarIdentifier one = ToTemporalCalendarIdentifier two)"

text \<open>
  \<^verbatim>\<open>PlainYearMonthWithCalendar\<close>, and the slots of a \<^verbatim>\<open>PlainYearMonthObject\<close>
  (\<^verbatim>\<open>ISO_YEAR_SLOT\<close>, \<^verbatim>\<open>ISO_MONTH_SLOT\<close>, \<^verbatim>\<open>ISO_DAY_SLOT\<close>, \<^verbatim>\<open>CALENDAR_SLOT\<close>);
  \<^verbatim>\<open>ToPlainDate(yearMonth)\<close> reads the three ISO slots.
\<close>

datatype PlainYearMonthWithCalendar =
  PlainYearMonthWithCalendar (ToPlainDate: PlainDate) (calendar: CalendarValue)

datatype PlainDateWithCalendar =
  PlainDateWithCalendar (date_of: PlainDate) (calendar_of: CalendarValue)

text \<open>
  Modelled from the spec: \<^verbatim>\<open>ThrowIfInvalidISODate\<close> is defined in PlainDate.cpp, which is
  missing. The specification gives its contract: the triple must be a valid date of the
  proleptic Gregorian calendar, otherwise it fails with a range error (invalid ISO date).
\<close>

definition IsLeapYear :: "int \<Rightarrow> bool" where
  "IsLeapYear y = (y mod 4 = 0 \<and> (y mod 100 \<noteq> 0 \<or> y mod 400 = 0))"

definition ISODaysInMonth :: "int \<Rightarrow> int \<Rightarrow> int" where
  "ISODaysInMonth y m =
     (if m = 2 then (if IsLeapYear y then 29 else 28)
      else if m = 4 \<or> m = 6 \<or> m = 9 \<or> m = 11 then 30
      else 31)"

definition IsValidISODate :: "int \<Rightarrow> int \<Rightarrow> int \<Rightarrow> bool" where
  "IsValidISODate y m d = (1 \<le> m \<and> m \<le> 12 \<and> 1 \<le> d \<and> d \<le> ISODaysInMonth y m)"

definition ThrowIfInvalidISODate :: "int \<Rightarrow> int \<Rightarrow> int \<Rightarrow> 'x error option" where
  "ThrowIfInvalidISODate y m d =
     (if IsValidISODate y m d then None else Some RangeError_InvalidISODate)"

section \<open>Construction\<close>

text \<open>\<^verbatim>\<open>ISOYearMonthWithinLimits ( year, month )\<close>, steps 2 to 5.\<close>

definition ISOYearMonthWithinLimits :: "int \<Rightarrow> int \<Rightarrow> bool" where
  "ISOYearMonthWithinLimits y m =
     (if y < - 271821 \<or> y > 275760 then False
      else if y = - 271821 \<and> m < 4 then False
      else if y = 275760 \<and> m > 9 then False
      else True)"

text \<open>
  \<^verbatim>\<open>CreateTemporalYearMonth(cx, args, isoYear, isoMonth, isoDay, calendar)\<close>: the overload
  of the constructor. The three numbers are integer-valued doubles; they are cast to
  \<^verbatim>\<open>int32_t\<close> only after both checks have passed. Steps 3 and 4, the prototype lookup
  and the allocation, come after both checks and are not modelled.
\<close>

definition CreateTemporalYearMonth ::
  "int \<Rightarrow> int \<Rightarrow> int \<Rightarrow> CalendarValue \<Rightarrow> 'x error + PlainYearMonthWithCalendar" where
  "CreateTemporalYearMonth isoYear isoMonth isoDay cal =
     (case ThrowIfInvalidISODate isoYear isoMonth isoDay of
        Some e \<Rightarrow> Inl e
      | None \<Rightarrow>
          if \<not> ISOYearMonthWithinLimits isoYear isoMonth
          then Inl RangeError_PlainYearMonthInvalid
          else Inr (PlainYearMonthWithCalendar
                      \<lparr>year = isoYear, month = isoMonth, day = isoDay\<rparr> cal))"

text \<open>
  \<^verbatim>\<open>CreateTemporalYearMonth(cx, date, calendar)\<close>: the overload taking a \<^verbatim>\<open>PlainDate\<close>.
  The overload that fills a \<^verbatim>\<open>MutableHandle\<close> runs the same two checks.
\<close>

definition CreateTemporalYearMonth_date ::
  "PlainDate \<Rightarrow> CalendarValue \<Rightarrow> 'x error + PlainYearMonthWithCalendar" where
  "CreateTemporalYearMonth_date d cal =
     (case ThrowIfInvalidISODate (year d) (month d) (day d) of
        Some e \<Rightarrow> Inl e
      | None \<Rightarrow>
          if \<not> ISOYearMonthWithinLimits (year d) (month d)
          then Inl RangeError_PlainYearMonthInvalid
          else Inr (PlainYearMonthWithCalendar d cal))"

text \<open>
  \<^verbatim>\<open>CreateTemporalYearMonth(cx, yearMonth)\<close>: the overload taking a
  \<^verbatim>\<open>PlainYearMonthWithCalendar\<close>; its debug assertion is compiled out of release builds.
\<close>

definition CreateTemporalYearMonth_ym ::
  "PlainYearMonthWithCalendar \<Rightarrow> 'x error + PlainYearMonthWithCalendar" where
  "CreateTemporalYearMonth_ym ym = CreateTemporalYearMonth_date (ToPlainDate ym) (calendar ym)"


section \<open>Values, fields, durations and options\<close>

text \<open>
  A JavaScript value as far as this file inspects it: \<^verbatim>\<open>isObject()\<close>, \<^verbatim>\<open>isString()\<close>, and
  \<^verbatim>\<open>hasDefined\<close> for an argument. An object is a \<^verbatim>\<open>PlainYearMonthObject\<close> (also behind a
  wrapper: \<^verbatim>\<open>maybeUnwrapIf\<close>, \<^verbatim>\<open>canUnwrapAs\<close>), a \<^verbatim>\<open>PlainDateObject\<close>, or any other object,
  whose content \<open>'o\<close> only the collaborators read.
\<close>

datatype 'o JSObject =
    PlainYearMonthObject PlainYearMonthWithCalendar
  | PlainDateObject PlainDateWithCalendar
  | OtherObject 'o

datatype 'o Value =
    UndefinedValue
  | ObjectValue "'o JSObject"
  | StringValue string
  | PrimitiveValue

text \<open>
  Modelled from the spec: \<^verbatim>\<open>RequireObjectArg\<close> is missing; a non-object where an object is
  required is a type error.
\<close>

definition RequireObjectArg :: "'o Value \<Rightarrow> 'x error + 'o JSObject" where
  "RequireObjectArg v = (case v of ObjectValue obj \<Rightarrow> Inr obj | _ \<Rightarrow> Inl TypeError_ObjectRequired)"

definition hasDefined :: "'o Value \<Rightarrow> bool" where
  "hasDefined v = (v \<noteq> UndefinedValue)"

datatype TemporalOverflow = Constrain | Reject

datatype TemporalDifference = Until | Since

datatype PlainYearMonthDuration = Add | Subtract

datatype TemporalUnit =
  Auto | Year | Month | Week | Day | Hour | Minute | Second | Millisecond | Microsecond
  | Nanosecond

datatype TemporalUnitGroup = Date | Time | DateTime | DayTime

datatype TemporalRoundingMode =
  Ceil | Floor | Expand | Trunc | HalfCeil | HalfFloor | HalfExpand | HalfTrunc | HalfEven

record DifferenceSettings =
  smallestUnit :: TemporalUnit
  largestUnit :: TemporalUnit
  roundingMode :: TemporalRoundingMode
  roundingIncrement :: int

text \<open>
  \<^verbatim>\<open>TemporalFields\<close>: the closed vocabulary of the specification, each field assigned
  or not (the struct and its set of assigned fields are declared in TemporalFields.h,
  which is missing). \<^verbatim>\<open>keys()\<close> lists the assigned fields.
\<close>

datatype CalendarField =
  CalendarField_Day | CalendarField_Month | CalendarField_MonthCode | CalendarField_Year

datatype TemporalField =
  TemporalField_Year | TemporalField_Month | TemporalField_MonthCode | TemporalField_Day
  | TemporalField_Era | TemporalField_EraYear

record TemporalFields =
  year_field :: "int option"
  month_field :: "int option"
  monthCode_field :: "string option"
  day_field :: "int option"
  era_field :: "string option"
  eraYear_field :: "int option"

definition has :: "TemporalFields \<Rightarrow> TemporalField \<Rightarrow> bool" where
  "has fs k =
     (case k of
        TemporalField_Year \<Rightarrow> year_field fs \<noteq> None
      | TemporalField_Month \<Rightarrow> month_field fs \<noteq> None
      | TemporalField_MonthCode \<Rightarrow> monthCode_field fs \<noteq> None
      | TemporalField_Day \<Rightarrow> day_field fs \<noteq> None
      | TemporalField_Era \<Rightarrow> era_field fs \<noteq> None
      | TemporalField_EraYear \<Rightarrow> eraYear_field fs \<noteq> None)"

definition keys :: "TemporalFields \<Rightarrow> TemporalField list" where
  "keys fs =
     filter (has fs)
       [TemporalField_Year, TemporalField_Month, TemporalField_MonthCode, TemporalField_Day,
        TemporalField_Era, TemporalField_EraYear]"

definition setDay :: "TemporalFields \<Rightarrow> int \<Rightarrow> TemporalFields" where
  "setDay fs d = fs\<lparr>day_field := Some d\<rparr>"

text \<open>
  \<^verbatim>\<open>Duration\<close> (ten integer-valued doubles) and \<^verbatim>\<open>DateDuration\<close> (four \<^verbatim>\<open>int64_t\<close>);
  an aggregate initialiser with fewer values leaves the other members zero, so
  \<^verbatim>\<open>Duration{years, months}\<close> is \<open>Duration_of years months\<close>.

  Modelled from the spec: the methods \<^verbatim>\<open>negate\<close> and \<^verbatim>\<open>toDateDuration\<close> are declared in
  the missing headers; negation negates every field, and the date duration of a
  duration is its years, months, weeks and days.
\<close>

record Duration =
  years :: int
  months :: int
  weeks :: int
  days :: int
  hours :: int
  minutes :: int
  seconds :: int
  milliseconds :: int
  microseconds :: int
  nanoseconds :: int

datatype DateDuration =
  DateDuration (years_of: int) (months_of: int) (weeks_of: int) (days_of: int)

definition Duration_of :: "int \<Rightarrow> int \<Rightarrow> Duration" where
  "Duration_of y m =
     \<lparr>years = y, months = m, weeks = 0, days = 0, hours = 0, minutes = 0, seconds = 0,
      milliseconds = 0, microseconds = 0, nanoseconds = 0\<rparr>"

definition negate :: "Duration \<Rightarrow> Duration" where
  "negate d =
     \<lparr>years = - years d, months = - months d, weeks = - weeks d, days = - days d,
      hours = - hours d, minutes = - minutes d, seconds = - seconds d,
      milliseconds = - milliseconds d, microseconds = - microseconds d,
      nanoseconds = - nanoseconds d\<rparr>"

definition toDateDuration :: "Duration \<Rightarrow> DateDuration" where
  "toDateDuration d = DateDuration (years d) (months d) (weeks d) (days d)"

text \<open>
  Modelled from the spec: \<^verbatim>\<open>DurationSign\<close> is defined in Duration.cpp, which is missing;
  the specification makes it the sign (negative, zero, positive) of the date duration,
  here that of its first component that is not zero.
\<close>

definition DurationSign :: "DateDuration \<Rightarrow> int" where
  "DurationSign d =
     (if years_of d \<noteq> 0 then sgn (years_of d)
      else if months_of d \<noteq> 0 then sgn (months_of d)
      else if weeks_of d \<noteq> 0 then sgn (weeks_of d)
      else sgn (days_of d))"

datatype NormalizedTimeDuration = NormalizedTimeDuration int int

datatype NormalizedDuration = NormalizedDuration DateDuration NormalizedTimeDuration

datatype TimeDuration = TimeDuration (balanced_days: int) int int int int int int

record PlainTime =
  hour :: int
  minute :: int
  second :: int
  millisecond :: int
  microsecond :: int
  nanosecond :: int

definition midnight :: PlainTime where
  "midnight = \<lparr>hour = 0, minute = 0, second = 0, millisecond = 0, microsecond = 0,
               nanosecond = 0\<rparr>"

datatype PlainDateTime = PlainDateTime PlainDate PlainTime

datatype TimeZoneValue = EmptyTimeZone | TimeZone string

section \<open>The collaborators\<close>

text \<open>
  The functions of Calendar.cpp, Duration.cpp, PlainDate.cpp, Temporal.cpp,
  TemporalFields.cpp and TemporalParser.cpp that this file calls are not part of it.
  They are parameters of the model: every operation below takes the record of
  collaborators it runs against, and every theorem holds for all of them. A collaborator
  that can throw returns \<open>Inl x\<close>, \<open>x\<close> being its exception. An out-parameter that the
  callee assigns is its result; \<^verbatim>\<open>GetTemporalOverflowOption\<close>, which leaves its
  out-parameter alone when the option is absent, takes the value that is there.
  \<^verbatim>\<open>RoundRelativeDuration\<close> returns the \<^verbatim>\<open>duration\<close> member of its result, the only one read.
\<close>

record ('o, 'x) collaborators =
  GetTemporalCalendarWithISODefault :: "'o JSObject \<Rightarrow> 'x + CalendarValue"
  PrepareCalendarFields ::
    "CalendarValue \<Rightarrow> 'o JSObject \<Rightarrow> CalendarField list \<Rightarrow> 'x + TemporalFields"
  PrepareCalendarFieldsAndFieldNames ::
    "CalendarValue \<Rightarrow> 'o JSObject \<Rightarrow> CalendarField list \<Rightarrow> 'x + TemporalFields"
  PrepareTemporalFields :: "'o JSObject \<Rightarrow> TemporalField list \<Rightarrow> 'x + TemporalFields"
  CalendarYearMonthFromFields ::
    "CalendarValue \<Rightarrow> TemporalFields \<Rightarrow> TemporalOverflow \<Rightarrow> 'x + PlainYearMonthWithCalendar"
  CalendarYearMonthFromFields_object ::
    "CalendarValue \<Rightarrow> 'o JSObject \<Rightarrow> TemporalOverflow \<Rightarrow> 'x + PlainYearMonthWithCalendar"
  CalendarDateFromFields ::
    "CalendarValue \<Rightarrow> TemporalFields \<Rightarrow> TemporalOverflow \<Rightarrow> 'x + PlainDateWithCalendar"
  CalendarDateAdd ::
    "CalendarValue \<Rightarrow> PlainDateWithCalendar \<Rightarrow> DateDuration \<Rightarrow> TemporalOverflow \<Rightarrow> 'x + PlainDate"
  AddDate ::
    "CalendarValue \<Rightarrow> PlainDateWithCalendar \<Rightarrow> DateDuration \<Rightarrow> TemporalOverflow \<Rightarrow> 'x + PlainDate"
  CalendarDateUntil ::
    "CalendarValue \<Rightarrow> PlainDateWithCalendar \<Rightarrow> PlainDateWithCalendar \<Rightarrow> TemporalUnit
      \<Rightarrow> 'x + DateDuration"
  CalendarDay :: "CalendarValue \<Rightarrow> PlainDate \<Rightarrow> 'x + int"
  CreateTemporalDate :: "PlainDate \<Rightarrow> CalendarValue \<Rightarrow> 'x + PlainDateWithCalendar"
  BalanceISODate :: "int \<Rightarrow> int \<Rightarrow> int \<Rightarrow> PlainDate"
  ParseTemporalYearMonthString :: "string \<Rightarrow> 'x + PlainDate \<times> string option"
  ToBuiltinCalendar :: "string \<Rightarrow> 'x + CalendarValue"
  GetDifferenceSettings ::
    "TemporalDifference \<Rightarrow> 'o JSObject \<Rightarrow> TemporalUnitGroup \<Rightarrow> TemporalUnit \<Rightarrow> TemporalUnit
      \<Rightarrow> TemporalUnit \<Rightarrow> 'x + DifferenceSettings"
  GetTemporalOverflowOption :: "'o JSObject \<Rightarrow> TemporalOverflow \<Rightarrow> 'x + TemporalOverflow"
  ToTemporalDurationRecord :: "'o Value \<Rightarrow> 'x + Duration"
  ThrowIfInvalidDuration :: "Duration \<Rightarrow> 'x option"
  NormalizeTimeDuration :: "Duration \<Rightarrow> NormalizedTimeDuration"
  BalanceTimeDuration :: "NormalizedTimeDuration \<Rightarrow> TemporalUnit \<Rightarrow> TimeDuration"
  GetUTCEpochNanoseconds :: "PlainDateTime \<Rightarrow> int"
  RoundRelativeDuration ::
    "NormalizedDuration \<Rightarrow> int \<Rightarrow> PlainDateTime \<Rightarrow> CalendarValue \<Rightarrow> TimeZoneValue
      \<Rightarrow> TemporalUnit \<Rightarrow> int \<Rightarrow> TemporalUnit \<Rightarrow> TemporalRoundingMode \<Rightarrow> 'x + Duration"

text \<open>
  Modelled from the spec: \<^verbatim>\<open>CreateTemporalDuration\<close> is defined in Duration.cpp, which is
  missing; it constructs the duration object, whose slots hold the record, unless the
  record is not a valid duration, which the collaborator \<^verbatim>\<open>ThrowIfInvalidDuration\<close>
  decides.
\<close>

definition CreateTemporalDuration ::
  "('o, 'x) collaborators \<Rightarrow> Duration \<Rightarrow> 'x error + Duration" where
  "CreateTemporalDuration env d =
     (case ThrowIfInvalidDuration env d of Some x \<Rightarrow> Inl (Thrown x) | None \<Rightarrow> Inr d)"

text \<open>
  Modelled from the spec: \<^verbatim>\<open>CompareISODate\<close> is defined in PlainDate.cpp, which is missing;
  the specification makes it the ternary lexicographic comparison of the ISO year, month
  and day.
\<close>

definition CompareISODate :: "PlainDate \<Rightarrow> PlainDate \<Rightarrow> int" where
  "CompareISODate one two =
     (if year one \<noteq> year two then (if year one < year two then - 1 else 1)
      else if month one \<noteq> month two then (if month one < month two then - 1 else 1)
      else if day one \<noteq> day two then (if day one < day two then - 1 else 1)
      else 0)"


section \<open>Conversion\<close>

text \<open>
  \<^verbatim>\<open>ToTemporalYearMonth(cx, Handle<JSObject*> item, overflow, result)\<close>: step 2.a returns
  the slots of a year-month object; steps 2.b to 2.d read the calendar and the fields
  month, monthCode and year of any other object.
\<close>

definition ToTemporalYearMonth_object ::
  "('o, 'x) collaborators \<Rightarrow> 'o JSObject \<Rightarrow> TemporalOverflow
    \<Rightarrow> 'x error + PlainYearMonthWithCalendar" where
  "ToTemporalYearMonth_object env item overflow =
     (case item of
        PlainYearMonthObject plainYearMonth \<Rightarrow> Inr plainYearMonth
      | _ \<Rightarrow>
         (case call (GetTemporalCalendarWithISODefault env item) of
            Inl e \<Rightarrow> Inl e
          | Inr cal \<Rightarrow>
             (case call (PrepareCalendarFields env cal item
                          [CalendarField_Month, CalendarField_MonthCode, CalendarField_Year]) of
                Inl e \<Rightarrow> Inl e
              | Inr fs \<Rightarrow> call (CalendarYearMonthFromFields env cal fs overflow))))"

text \<open>
  \<^verbatim>\<open>ToTemporalYearMonth(cx, Handle<Value> item, overflow, result)\<close>: an object (step 2),
  anything but a string (step 3), a string (steps 4 to 11).
\<close>

definition ToTemporalYearMonth ::
  "('o, 'x) collaborators \<Rightarrow> 'o Value \<Rightarrow> TemporalOverflow
    \<Rightarrow> 'x error + PlainYearMonthWithCalendar" where
  "ToTemporalYearMonth env item overflow =
     (case item of
        ObjectValue itemObj \<Rightarrow> ToTemporalYearMonth_object env itemObj overflow
      | StringValue str \<Rightarrow>
         (case call (ParseTemporalYearMonthString env str) of
            Inl e \<Rightarrow> Inl e
          | Inr (d, calendarString) \<Rightarrow>
             (case (case calendarString of
                      None \<Rightarrow> Inr ISO8601
                    | Some cs \<Rightarrow> call (ToBuiltinCalendar env cs)) of
                Inl e \<Rightarrow> Inl e
              | Inr cal \<Rightarrow>
                 (case CreateTemporalYearMonth_date d cal of
                    Inl e \<Rightarrow> Inl e
                  | Inr obj \<Rightarrow>
                      call (CalendarYearMonthFromFields_object env cal
                              (PlainYearMonthObject obj) Constrain))))
      | _ \<Rightarrow> Inl TypeError_UnexpectedType)"

text \<open>\<^verbatim>\<open>ToTemporalYearMonth(cx, item, result)\<close>: the overflow defaults to constrain.\<close>

definition ToTemporalYearMonth_constrain ::
  "('o, 'x) collaborators \<Rightarrow> 'o Value \<Rightarrow> 'x error + PlainYearMonthWithCalendar" where
  "ToTemporalYearMonth_constrain env item = ToTemporalYearMonth env item Constrain"

text \<open>\<^verbatim>\<open>Temporal.PlainYearMonth.from ( item [ , options ] )\<close>.\<close>

definition PlainYearMonth_from ::
  "('o, 'x) collaborators \<Rightarrow> 'o Value \<Rightarrow> 'o Value \<Rightarrow> 'x error + PlainYearMonthWithCalendar" where
  "PlainYearMonth_from env arg0 arg1 =
     (case (if hasDefined arg1
            then (case RequireObjectArg arg1 of
                    Inl e \<Rightarrow> Inl e
                  | Inr options \<Rightarrow> call (GetTemporalOverflowOption env options Constrain))
            else Inr Constrain) of
        Inl e \<Rightarrow> Inl e
      | Inr overflow \<Rightarrow>
         (case ToTemporalYearMonth env arg0 overflow of
            Inl e \<Rightarrow> Inl e
          | Inr yearMonth \<Rightarrow> CreateTemporalYearMonth_ym yearMonth))"

section \<open>Comparison and equality\<close>

text \<open>\<^verbatim>\<open>Temporal.PlainYearMonth.compare ( one, two )\<close>.\<close>

definition PlainYearMonth_compare ::
  "('o, 'x) collaborators \<Rightarrow> 'o Value \<Rightarrow> 'o Value \<Rightarrow> 'x error + int" where
  "PlainYearMonth_compare env arg0 arg1 =
     (case ToTemporalYearMonth_constrain env arg0 of
        Inl e \<Rightarrow> Inl e
      | Inr one \<Rightarrow>
         (case ToTemporalYearMonth_constrain env arg1 of
            Inl e \<Rightarrow> Inl e
          | Inr two \<Rightarrow> Inr (CompareISODate (ToPlainDate one) (ToPlainDate two))))"

text \<open>
  \<^verbatim>\<open>Temporal.PlainYearMonth.prototype.equals ( other )\<close>; the receiver has passed the
  \<^verbatim>\<open>IsPlainYearMonth\<close> test of \<^verbatim>\<open>CallNonGenericMethod\<close>.
\<close>

definition PlainYearMonth_equals ::
  "('o, 'x) collaborators \<Rightarrow> PlainYearMonthWithCalendar \<Rightarrow> 'o Value \<Rightarrow> 'x error + bool" where
  "PlainYearMonth_equals env yearMonth arg0 =
     (let d = ToPlainDate yearMonth; cal = calendar yearMonth in
      case ToTemporalYearMonth_constrain env arg0 of
        Inl e \<Rightarrow> Inl e
      | Inr other \<Rightarrow> Inr (d = ToPlainDate other \<and> CalendarEquals cal (calendar other)))"


section \<open>Difference: until and since\<close>

text \<open>
  \<^verbatim>\<open>DifferenceTemporalPlainYearMonth ( operation, yearMonth, other, options )\<close>. The
  function is one body in the source; it is cut here at its step comments so that the
  order of the steps can be stated. Its debug assertions (\<^verbatim>\<open>MOZ_ASSERT\<close>) are compiled
  out of release builds and are not modelled.

  The object handed to \<^verbatim>\<open>PrepareTemporalFields\<close> in step 11: the argument itself when it
  is a year-month object, otherwise an object created from the converted value.
\<close>

definition Difference_otherYearMonth ::
  "'o Value \<Rightarrow> PlainYearMonthWithCalendar \<Rightarrow> 'x error + 'o JSObject" where
  "Difference_otherYearMonth arg0 other =
     (case arg0 of
        ObjectValue (PlainYearMonthObject ym) \<Rightarrow> Inr (PlainYearMonthObject ym)
      | _ \<Rightarrow>
         (case CreateTemporalYearMonth_ym other of
            Inl e \<Rightarrow> Inl e
          | Inr obj \<Rightarrow> Inr (PlainYearMonthObject obj)))"

text \<open>Steps 5 and 6: the settings, resolved from the options or defaulted.\<close>

definition Difference_settings ::
  "('o, 'x) collaborators \<Rightarrow> TemporalDifference \<Rightarrow> 'o Value \<Rightarrow> 'x error + DifferenceSettings" where
  "Difference_settings env operation arg1 =
     (if hasDefined arg1
      then (case RequireObjectArg arg1 of
              Inl e \<Rightarrow> Inl e
            | Inr options \<Rightarrow>
                call (GetDifferenceSettings env operation options Date Month Month Year))
      else Inr \<lparr>smallestUnit = Month, largestUnit = Year, roundingMode = Trunc,
                roundingIncrement = 1\<rparr>)"

text \<open>Steps 8 to 17, run when the two ISO dates differ.\<close>

definition Difference_steps_8_17 ::
  "('o, 'x) collaborators \<Rightarrow> TemporalDifference \<Rightarrow> PlainYearMonthWithCalendar \<Rightarrow> 'o JSObject
    \<Rightarrow> CalendarValue \<Rightarrow> DifferenceSettings \<Rightarrow> 'x error + Duration" where
  "Difference_steps_8_17 env operation yearMonth otherYearMonth cal settings =
     (case call (PrepareCalendarFieldsAndFieldNames env cal (PlainYearMonthObject yearMonth)
                  [CalendarField_MonthCode, CalendarField_Year]) of
        Inl e \<Rightarrow> Inl e
      | Inr thisFields \<Rightarrow>
     (let thisFieldNames = keys thisFields in
      case call (CalendarDateFromFields env cal (setDay thisFields 1) Constrain) of
        Inl e \<Rightarrow> Inl e
      | Inr thisDate \<Rightarrow>
     (case call (PrepareTemporalFields env otherYearMonth thisFieldNames) of
        Inl e \<Rightarrow> Inl e
      | Inr otherFields \<Rightarrow>
     (case call (CalendarDateFromFields env cal (setDay otherFields 1) Constrain) of
        Inl e \<Rightarrow> Inl e
      | Inr otherDate \<Rightarrow>
     (case call (CalendarDateUntil env cal thisDate otherDate (largestUnit settings)) of
        Inl e \<Rightarrow> Inl e
      | Inr until \<Rightarrow>
     (case (if smallestUnit settings \<noteq> Month \<or> roundingIncrement settings \<noteq> 1
            then (let duration =
                        NormalizedDuration
                          (DateDuration (years_of until) (months_of until) 0 0)
                          (NormalizedTimeDuration 0 0);
                      otherDateTime = PlainDateTime (date_of otherDate) midnight;
                      destEpochNs = GetUTCEpochNanoseconds env otherDateTime;
                      dateTime = PlainDateTime (date_of thisDate) midnight
                  in case call (RoundRelativeDuration env duration destEpochNs dateTime cal
                                  EmptyTimeZone (largestUnit settings)
                                  (roundingIncrement settings) (smallestUnit settings)
                                  (roundingMode settings)) of
                       Inl e \<Rightarrow> Inl e
                     | Inr relative \<Rightarrow> Inr (toDateDuration relative))
            else Inr (DateDuration (years_of until) (months_of until) 0 0)) of
        Inl e \<Rightarrow> Inl e
      | Inr dateDuration \<Rightarrow>
     (let duration = Duration_of (years_of dateDuration) (months_of dateDuration) in
      CreateTemporalDuration env
        (if operation = Since then negate duration else duration))))))))"

definition DifferenceTemporalPlainYearMonth ::
  "('o, 'x) collaborators \<Rightarrow> TemporalDifference \<Rightarrow> PlainYearMonthWithCalendar \<Rightarrow> 'o Value
    \<Rightarrow> 'o Value \<Rightarrow> 'x error + Duration" where
  "DifferenceTemporalPlainYearMonth env operation yearMonth arg0 arg1 =
     (case ToTemporalYearMonth_constrain env arg0 of
        Inl e \<Rightarrow> Inl e
      | Inr other \<Rightarrow>
     (case Difference_otherYearMonth arg0 other of
        Inl e \<Rightarrow> Inl e
      | Inr otherYearMonth \<Rightarrow>
     (let cal = calendar yearMonth in
      if \<not> CalendarEquals cal (calendar other)
      then Inl (RangeError_CalendarIncompatible
                  (ToTemporalCalendarIdentifier cal)
                  (ToTemporalCalendarIdentifier (calendar other)))
      else
     (case Difference_settings env operation arg1 of
        Inl e \<Rightarrow> Inl e
      | Inr settings \<Rightarrow>
          if ToPlainDate yearMonth = ToPlainDate other
          then CreateTemporalDuration env (Duration_of 0 0)
          else Difference_steps_8_17 env operation yearMonth otherYearMonth cal settings))))"

text \<open>
  \<^verbatim>\<open>Temporal.PlainYearMonth.prototype.until\<close> and \<^verbatim>\<open>since\<close>; the receiver has passed the
  \<^verbatim>\<open>IsPlainYearMonth\<close> test of \<^verbatim>\<open>CallNonGenericMethod\<close>.
\<close>

definition PlainYearMonth_until ::
  "('o, 'x) collaborators \<Rightarrow> PlainYearMonthWithCalendar \<Rightarrow> 'o Value \<Rightarrow> 'o Value
    \<Rightarrow> 'x error + Duration" where
  "PlainYearMonth_until env yearMonth arg0 arg1 =
     DifferenceTemporalPlainYearMonth env Until yearMonth arg0 arg1"

definition PlainYearMonth_since ::
  "('o, 'x) collaborators \<Rightarrow> PlainYearMonthWithCalendar \<Rightarrow> 'o Value \<Rightarrow> 'o Value
    \<Rightarrow> 'x error + Duration" where
  "PlainYearMonth_since env yearMonth arg0 arg1 =
     DifferenceTemporalPlainYearMonth env Since yearMonth arg0 arg1"

section \<open>Arithmetic: add and subtract\<close>

text \<open>
  \<^verbatim>\<open>AddDurationToOrSubtractDurationFromPlainYearMonth\<close>, cut at its step comments; its
  debug assertions are not modelled.

  Steps 14 and 15: the date the duration is added to. For a negative duration it is the
  last day of the month (one month after the first day, less one ISO day, read back
  through the calendar), otherwise the first day.
\<close>

definition AddSubtract_steps_14_15 ::
  "('o, 'x) collaborators \<Rightarrow> CalendarValue \<Rightarrow> PlainDateWithCalendar \<Rightarrow> TemporalFields \<Rightarrow> int
    \<Rightarrow> 'x error + PlainDateWithCalendar" where
  "AddSubtract_steps_14_15 env cal intermediateDate fieldsCopy sign =
     (if sign < 0
      then (let oneMonthDuration = DateDuration 0 1 0 0 in
            case call (CalendarDateAdd env cal intermediateDate oneMonthDuration Constrain) of
              Inl e \<Rightarrow> Inl e
            | Inr nextMonth \<Rightarrow>
           (let endOfMonthISO =
                  BalanceISODate env (year nextMonth) (month nextMonth) (day nextMonth - 1) in
            case call (CreateTemporalDate env endOfMonthISO cal) of
              Inl e \<Rightarrow> Inl e
            | Inr endOfMonth \<Rightarrow>
           (case call (CalendarDay env cal (date_of endOfMonth)) of
              Inl e \<Rightarrow> Inl e
            | Inr d \<Rightarrow> call (CalendarDateFromFields env cal (setDay fieldsCopy d) Constrain))))
      else Inr intermediateDate)"

text \<open>Steps 17 to 19: add the duration and project the sum back to a year-month.\<close>

definition AddSubtract_steps_17_19 ::
  "('o, 'x) collaborators \<Rightarrow> CalendarValue \<Rightarrow> PlainDateWithCalendar \<Rightarrow> DateDuration
    \<Rightarrow> TemporalOverflow \<Rightarrow> TemporalField list \<Rightarrow> 'x error + PlainYearMonthWithCalendar" where
  "AddSubtract_steps_17_19 env cal d durationToAdd overflow fieldNames =
     (case call (AddDate env cal d durationToAdd overflow) of
        Inl e \<Rightarrow> Inl e
      | Inr addedDate \<Rightarrow>
     (case call (CreateTemporalDate env addedDate cal) of
        Inl e \<Rightarrow> Inl e
      | Inr addedDateObj \<Rightarrow>
     (case call (PrepareTemporalFields env (PlainDateObject addedDateObj) fieldNames) of
        Inl e \<Rightarrow> Inl e
      | Inr addedDateFields \<Rightarrow>
     (case call (CalendarYearMonthFromFields env cal addedDateFields overflow) of
        Inl e \<Rightarrow> Inl e
      | Inr result \<Rightarrow> CreateTemporalYearMonth_ym result))))"

text \<open>Steps 3 and 4: the overflow option, constrain when there are no options.\<close>

definition AddSubtract_overflow ::
  "('o, 'x) collaborators \<Rightarrow> 'o Value \<Rightarrow> 'x error + TemporalOverflow" where
  "AddSubtract_overflow env arg1 =
     (if hasDefined arg1
      then (case RequireObjectArg arg1 of
              Inl e \<Rightarrow> Inl e
            | Inr options \<Rightarrow> call (GetTemporalOverflowOption env options Constrain))
      else Inr Constrain)"

text \<open>Steps 5 to 8: the date duration to add, time balanced into days, and its sign.\<close>

definition AddSubtract_durationToAdd ::
  "('o, 'x) collaborators \<Rightarrow> Duration \<Rightarrow> DateDuration" where
  "AddSubtract_durationToAdd env duration =
     (let timeDuration = NormalizeTimeDuration env duration;
          balancedTime = BalanceTimeDuration env timeDuration Day
      in DateDuration (years duration) (months duration) (weeks duration)
           (days duration + balanced_days balancedTime))"

definition AddDurationToOrSubtractDurationFromPlainYearMonth ::
  "('o, 'x) collaborators \<Rightarrow> PlainYearMonthDuration \<Rightarrow> PlainYearMonthWithCalendar \<Rightarrow> 'o Value
    \<Rightarrow> 'o Value \<Rightarrow> 'x error + PlainYearMonthWithCalendar" where
  "AddDurationToOrSubtractDurationFromPlainYearMonth env operation yearMonth arg0 arg1 =
     (case call (ToTemporalDurationRecord env arg0) of
        Inl e \<Rightarrow> Inl e
      | Inr duration0 \<Rightarrow>
     (let duration = (if operation = Subtract then negate duration0 else duration0) in
      case AddSubtract_overflow env arg1 of
        Inl e \<Rightarrow> Inl e
      | Inr overflow \<Rightarrow>
     (let durationToAdd = AddSubtract_durationToAdd env duration;
          sign = DurationSign durationToAdd;
          cal = calendar yearMonth
      in case call (PrepareCalendarFieldsAndFieldNames env cal (PlainYearMonthObject yearMonth)
                      [CalendarField_MonthCode, CalendarField_Year]) of
        Inl e \<Rightarrow> Inl e
      | Inr fs \<Rightarrow>
     (let fieldNames = keys fs;
          fieldsCopy = fs
      in case call (CalendarDateFromFields env cal (setDay fs 1) Constrain) of
        Inl e \<Rightarrow> Inl e
      | Inr intermediateDate \<Rightarrow>
     (case AddSubtract_steps_14_15 env cal intermediateDate fieldsCopy sign of
        Inl e \<Rightarrow> Inl e
      | Inr d \<Rightarrow> AddSubtract_steps_17_19 env cal d durationToAdd overflow fieldNames)))))"

definition PlainYearMonth_add ::
  "('o, 'x) collaborators \<Rightarrow> PlainYearMonthWithCalendar \<Rightarrow> 'o Value \<Rightarrow> 'o Value
    \<Rightarrow> 'x error + PlainYearMonthWithCalendar" where
  "PlainYearMonth_add env yearMonth arg0 arg1 =
     AddDurationToOrSubtractDurationFromPlainYearMonth env Add yearMonth arg0 arg1"

definition PlainYearMonth_subtract ::
  "('o, 'x) collaborators \<Rightarrow> PlainYearMonthWithCalendar \<Rightarrow> 'o Value \<Rightarrow> 'o Value
    \<Rightarrow> 'x error + PlainYearMonthWithCalendar" where
  "PlainYearMonth_subtract env yearMonth arg0 arg1 =
     AddDurationToOrSubtractDurationFromPlainYearMonth env Subtract yearMonth arg0 arg1"


section \<open>ISO triples\<close>

text \<open>The ISO anchor of the specification: year, month and day, ordered lexicographically.\<close>

definition iso_triple :: "PlainDate \<Rightarrow> int \<times> int \<times> int" where
  "iso_triple d = (year d, month d, day d)"

section \<open>A reference host\<close>

text \<open>
  Modelled from the spec: the collaborators themselves are missing, and the theorems
  below hold for all of them. To run the operations on concrete inputs, this section
  defines one record of collaborators for a fragment of the language: the ISO 8601
  calendar only, plain objects with typed properties, year-month strings of the form
  \<^verbatim>\<open>YYYY-MM\<close>, and differences that need no rounding. It follows the interface contracts
  of the specification (section 6) and the ISO 8601 rules of the Temporal proposal.
\<close>

text \<open>
  Modelled from the spec: the exceptions of the missing collaborators, by the error
  classes of the specification (section 7). \<open>NotModelled\<close> is not a JavaScript
  exception: it marks an input outside the fragment described above, about which the
  reference host says nothing.
\<close>

datatype exception = RangeError string | TypeError string | NotModelled string

text \<open>
  Modelled from the spec: the plain objects that the missing collaborators read (field
  records, options, duration-like objects), by the properties read from them; a property
  that is present already has the primitive type its reader converts to, a property that
  is not listed is undefined. In order: calendar, year, month, monthCode; largestUnit,
  roundingIncrement, roundingMode, smallestUnit; overflow; years to nanoseconds.
\<close>

datatype PlainObject =
    YearMonthLike "string option" "int option" "int option" "string option"
  | DifferenceOptions "string option" "int option" "string option" "string option"
  | OverflowOptions "string option"
  | DurationLike "int option" "int option" "int option" "int option" "int option"
      "int option" "int option" "int option" "int option" "int option"

text \<open>
  Modelled from the spec: \<^verbatim>\<open>BalanceISODate\<close> and the date range checked by
  \<^verbatim>\<open>CreateTemporalDate\<close> (PlainDate.cpp, missing), as ISO date arithmetic: the range of
  a \<^verbatim>\<open>PlainDate\<close>, days since the epoch and back, and the balancing of a month or a day
  that has left its range.
\<close>

definition host_ISODateWithinLimits :: "PlainDate \<Rightarrow> bool" where
  "host_ISODateWithinLimits d =
     ((- 271821, 4, 19) \<le> (year d, month d, day d)
      \<and> (year d, month d, day d) \<le> (275760, 9, 13))"

definition host_days_from_civil :: "int \<Rightarrow> int \<Rightarrow> int \<Rightarrow> int" where
  "host_days_from_civil y m d =
     (let y' = (if m \<le> 2 then y - 1 else y);
          era = y' div 400;
          yoe = y' - era * 400;
          doy = (153 * (if m > 2 then m - 3 else m + 9) + 2) div 5 + d - 1;
          doe = yoe * 365 + yoe div 4 - yoe div 100 + doy
      in era * 146097 + doe - 719468)"

definition host_civil_from_days :: "int \<Rightarrow> PlainDate" where
  "host_civil_from_days z =
     (let z' = z + 719468;
          era = z' div 146097;
          doe = z' - era * 146097;
          yoe = (doe - doe div 1460 + doe div 36524 - doe div 146096) div 365;
          doy = doe - (365 * yoe + yoe div 4 - yoe div 100);
          mp = (5 * doy + 2) div 153;
          d = doy - (153 * mp + 2) div 5 + 1;
          m = (if mp < 10 then mp + 3 else mp - 9);
          y = yoe + era * 400
      in \<lparr>year = (if m \<le> 2 then y + 1 else y), month = m, day = d\<rparr>)"

definition host_BalanceISOYearMonth :: "int \<Rightarrow> int \<Rightarrow> int \<times> int" where
  "host_BalanceISOYearMonth y m = (y + (m - 1) div 12, (m - 1) mod 12 + 1)"

definition host_BalanceISODate :: "int \<Rightarrow> int \<Rightarrow> int \<Rightarrow> PlainDate" where
  "host_BalanceISODate y m d =
     (case host_BalanceISOYearMonth y m of
        (y', m') \<Rightarrow> host_civil_from_days (host_days_from_civil y' m' 1 + d - 1))"


text \<open>
  Modelled from the spec: \<^verbatim>\<open>PrepareTemporalFields\<close>, \<^verbatim>\<open>PrepareCalendarFields\<close> and
  \<^verbatim>\<open>PrepareCalendarFieldsAndFieldNames\<close> (TemporalFields.cpp and Calendar.cpp, missing),
  as the extraction of the named fields: from the getters of a year-month or date object
  of the ISO 8601 calendar, and from the properties of a plain object, a month below 1
  being a range error.
\<close>

definition host_month_code :: "int \<Rightarrow> string" where
  "host_month_code m =
     [CHR ''M'', ''0123456789'' ! nat (m div 10), ''0123456789'' ! nat (m mod 10)]"

definition host_digit :: "char \<Rightarrow> int option" where
  "host_digit c =
     (let n = (of_char c :: nat) in if 48 \<le> n \<and> n \<le> 57 then Some (int n - 48) else None)"

definition host_parse_month_code :: "string \<Rightarrow> int option" where
  "host_parse_month_code code =
     (case code of
        [m, a, b] \<Rightarrow>
          (case (host_digit a, host_digit b) of
             (Some x, Some y) \<Rightarrow>
               if m = CHR ''M'' \<and> 1 \<le> 10 * x + y \<and> 10 * x + y \<le> 12
               then Some (10 * x + y) else None
           | _ \<Rightarrow> None)
      | _ \<Rightarrow> None)"

definition host_properties :: "PlainObject JSObject \<Rightarrow> TemporalFields" where
  "host_properties obj =
     (case obj of
        PlainYearMonthObject ym \<Rightarrow>
          \<lparr>year_field = Some (year (ToPlainDate ym)), month_field = Some (month (ToPlainDate ym)),
           monthCode_field = Some (host_month_code (month (ToPlainDate ym))),
           day_field = None, era_field = None, eraYear_field = None\<rparr>
      | PlainDateObject d \<Rightarrow>
          \<lparr>year_field = Some (year (date_of d)), month_field = Some (month (date_of d)),
           monthCode_field = Some (host_month_code (month (date_of d))),
           day_field = Some (day (date_of d)), era_field = None, eraYear_field = None\<rparr>
      | OtherObject (YearMonthLike c y m mc) \<Rightarrow>
          \<lparr>year_field = y, month_field = m, monthCode_field = mc, day_field = None,
           era_field = None, eraYear_field = None\<rparr>
      | OtherObject _ \<Rightarrow>
          \<lparr>year_field = None, month_field = None, monthCode_field = None, day_field = None,
           era_field = None, eraYear_field = None\<rparr>)"

definition host_prepare ::
  "PlainObject JSObject \<Rightarrow> TemporalField list \<Rightarrow> exception + TemporalFields" where
  "host_prepare obj names =
     (let p = host_properties obj in
      if TemporalField_Month \<in> set names \<and> (case month_field p of None \<Rightarrow> False | Some n \<Rightarrow> n < 1)
      then Inl (RangeError ''month'')
      else Inr
        \<lparr>year_field = (if TemporalField_Year \<in> set names then year_field p else None),
         month_field = (if TemporalField_Month \<in> set names then month_field p else None),
         monthCode_field =
           (if TemporalField_MonthCode \<in> set names then monthCode_field p else None),
         day_field = (if TemporalField_Day \<in> set names then day_field p else None),
         era_field = (if TemporalField_Era \<in> set names then era_field p else None),
         eraYear_field = (if TemporalField_EraYear \<in> set names then eraYear_field p else None)\<rparr>)"

fun host_field :: "CalendarField \<Rightarrow> TemporalField" where
  "host_field CalendarField_Day = TemporalField_Day"
| "host_field CalendarField_Month = TemporalField_Month"
| "host_field CalendarField_MonthCode = TemporalField_MonthCode"
| "host_field CalendarField_Year = TemporalField_Year"

definition host_PrepareCalendarFields ::
  "CalendarValue \<Rightarrow> PlainObject JSObject \<Rightarrow> CalendarField list \<Rightarrow> exception + TemporalFields"
  where
  "host_PrepareCalendarFields cal obj names =
     (if cal \<noteq> ISO8601 then Inl (NotModelled ''calendar'')
      else host_prepare obj (map host_field names))"

text \<open>
  Modelled from the spec: \<^verbatim>\<open>CalendarYearMonthFromFields\<close>, \<^verbatim>\<open>CalendarDateFromFields\<close>,
  \<^verbatim>\<open>CalendarDateAdd\<close>, \<^verbatim>\<open>AddDate\<close>, \<^verbatim>\<open>CalendarDateUntil\<close> (Calendar.cpp, missing) and
  \<^verbatim>\<open>CreateTemporalDate\<close> (PlainDate.cpp, missing), for the ISO 8601 calendar: month
  resolution from month and monthCode, year-month and date from fields (constrain
  clamps, reject fails), date addition and date difference.
\<close>

definition host_ISOResolveMonth :: "TemporalFields \<Rightarrow> exception + int" where
  "host_ISOResolveMonth fs =
     (case (month_field fs, monthCode_field fs) of
        (None, None) \<Rightarrow> Inl (TypeError ''month'')
      | (Some m, None) \<Rightarrow> Inr m
      | (None, Some code) \<Rightarrow>
          (case host_parse_month_code code of
             None \<Rightarrow> Inl (RangeError ''monthCode'')
           | Some n \<Rightarrow> Inr n)
      | (Some m, Some code) \<Rightarrow>
          (case host_parse_month_code code of
             None \<Rightarrow> Inl (RangeError ''monthCode'')
           | Some n \<Rightarrow> if m \<noteq> n then Inl (RangeError ''month'') else Inr n))"

definition host_CalendarYearMonthFromFields ::
  "CalendarValue \<Rightarrow> TemporalFields \<Rightarrow> TemporalOverflow
    \<Rightarrow> exception + PlainYearMonthWithCalendar" where
  "host_CalendarYearMonthFromFields cal fs overflow =
     (if cal \<noteq> ISO8601 then Inl (NotModelled ''calendar'')
      else case year_field fs of
        None \<Rightarrow> Inl (TypeError ''year'')
      | Some y \<Rightarrow>
         (case host_ISOResolveMonth fs of
            Inl e \<Rightarrow> Inl e
          | Inr m \<Rightarrow>
              if overflow = Reject \<and> \<not> (1 \<le> m \<and> m \<le> 12) then Inl (RangeError ''month'')
              else (let m' = max 1 (min 12 m) in
                    if ISOYearMonthWithinLimits y m'
                    then Inr (PlainYearMonthWithCalendar \<lparr>year = y, month = m', day = 1\<rparr> cal)
                    else Inl (RangeError ''plain-year-month-invalid''))))"

definition host_CalendarYearMonthFromFields_object ::
  "CalendarValue \<Rightarrow> PlainObject JSObject \<Rightarrow> TemporalOverflow
    \<Rightarrow> exception + PlainYearMonthWithCalendar" where
  "host_CalendarYearMonthFromFields_object cal obj overflow =
     (case host_PrepareCalendarFields cal obj
             [CalendarField_Month, CalendarField_MonthCode, CalendarField_Year] of
        Inl e \<Rightarrow> Inl e
      | Inr fs \<Rightarrow> host_CalendarYearMonthFromFields cal fs overflow)"

definition host_CreateTemporalDate ::
  "PlainDate \<Rightarrow> CalendarValue \<Rightarrow> exception + PlainDateWithCalendar" where
  "host_CreateTemporalDate d cal =
     (if \<not> IsValidISODate (year d) (month d) (day d) then Inl (RangeError ''invalid ISO date'')
      else if \<not> host_ISODateWithinLimits d then Inl (RangeError ''plain-date-invalid'')
      else Inr (PlainDateWithCalendar d cal))"

definition host_CalendarDateFromFields ::
  "CalendarValue \<Rightarrow> TemporalFields \<Rightarrow> TemporalOverflow \<Rightarrow> exception + PlainDateWithCalendar"
  where
  "host_CalendarDateFromFields cal fs overflow =
     (if cal \<noteq> ISO8601 then Inl (NotModelled ''calendar'')
      else case (year_field fs, day_field fs) of
        (Some y, Some d) \<Rightarrow>
         (case host_ISOResolveMonth fs of
            Inl e \<Rightarrow> Inl e
          | Inr m \<Rightarrow>
              if overflow = Reject
              then (if IsValidISODate y m d
                    then host_CreateTemporalDate \<lparr>year = y, month = m, day = d\<rparr> cal
                    else Inl (RangeError ''invalid ISO date''))
              else (let m' = max 1 (min 12 m);
                        d' = max 1 (min (ISODaysInMonth y m') d)
                    in host_CreateTemporalDate \<lparr>year = y, month = m', day = d'\<rparr> cal))
      | (None, _) \<Rightarrow> Inl (TypeError ''year'')
      | (_, None) \<Rightarrow> Inl (TypeError ''day''))"

definition host_AddISODate ::
  "CalendarValue \<Rightarrow> PlainDateWithCalendar \<Rightarrow> DateDuration \<Rightarrow> TemporalOverflow
    \<Rightarrow> exception + PlainDate" where
  "host_AddISODate cal d dur overflow =
     (if cal \<noteq> ISO8601 then Inl (NotModelled ''calendar'')
      else case host_BalanceISOYearMonth (year (date_of d) + years_of dur)
                  (month (date_of d) + months_of dur) of
        (y, m) \<Rightarrow>
          if overflow = Reject \<and> \<not> IsValidISODate y m (day (date_of d))
          then Inl (RangeError ''invalid ISO date'')
          else (let d' = max 1 (min (ISODaysInMonth y m) (day (date_of d)));
                    r = host_BalanceISODate y m (d' + days_of dur + 7 * weeks_of dur)
                in if host_ISODateWithinLimits r then Inr r
                   else Inl (RangeError ''plain-date-invalid'')))"

definition host_CalendarDateUntil ::
  "CalendarValue \<Rightarrow> PlainDateWithCalendar \<Rightarrow> PlainDateWithCalendar \<Rightarrow> TemporalUnit
    \<Rightarrow> exception + DateDuration" where
  "host_CalendarDateUntil cal one two unit =
     (if cal \<noteq> ISO8601 then Inl (NotModelled ''calendar'')
      else
       (let a = date_of one; b = date_of two;
            sign = - CompareISODate a b;
            total = (year b * 12 + month b) - (year a * 12 + month a);
            whole = (if sign > 0 \<and> day b < day a then total - 1
                     else if sign < 0 \<and> day b > day a then total + 1
                     else total);
            ms = (if unit = Year \<or> unit = Month then whole else 0);
            ys = (if unit = Year then sgn ms * (\<bar>ms\<bar> div 12) else 0);
            mo = ms - 12 * ys;
            mid = (case host_BalanceISOYearMonth (year a) (month a + ms) of
                     (y, m) \<Rightarrow> host_days_from_civil y m (min (ISODaysInMonth y m) (day a)));
            ds = host_days_from_civil (year b) (month b) (day b) - mid;
            ws = (if unit = Week then sgn ds * (\<bar>ds\<bar> div 7) else 0)
        in Inr (DateDuration ys mo ws (ds - 7 * ws))))"


text \<open>
  Modelled from the spec: \<^verbatim>\<open>ToBuiltinCalendar\<close>, \<^verbatim>\<open>GetTemporalCalendarWithISODefault\<close>
  (Calendar.cpp, missing) and \<^verbatim>\<open>ParseTemporalYearMonthString\<close> (TemporalParser.cpp,
  missing): the identifier \<^verbatim>\<open>iso8601\<close>, the calendar of an object (ISO 8601 when it has
  none), and year-month strings \<^verbatim>\<open>YYYY-MM\<close> with an optional \<^verbatim>\<open>[u-ca=id]\<close> annotation.
\<close>

definition host_ToBuiltinCalendar :: "string \<Rightarrow> exception + CalendarValue" where
  "host_ToBuiltinCalendar ident =
     (if ident = ''iso8601'' then Inr ISO8601 else Inl (NotModelled ''calendar''))"

definition host_GetTemporalCalendarWithISODefault ::
  "PlainObject JSObject \<Rightarrow> exception + CalendarValue" where
  "host_GetTemporalCalendarWithISODefault obj =
     (case obj of
        PlainYearMonthObject ym \<Rightarrow> Inr (calendar ym)
      | PlainDateObject d \<Rightarrow> Inr (calendar_of d)
      | OtherObject (YearMonthLike (Some c) y m mc) \<Rightarrow> host_ToBuiltinCalendar c
      | OtherObject _ \<Rightarrow> Inr ISO8601)"

definition host_ParseTemporalYearMonthString ::
  "string \<Rightarrow> exception + PlainDate \<times> string option" where
  "host_ParseTemporalYearMonthString str =
     (case map host_digit (take 7 str) of
        [Some a, Some b, Some c, Some d, None, Some m, Some n] \<Rightarrow>
          if str ! 4 \<noteq> CHR ''-'' then Inl (NotModelled ''string'')
          else if \<not> (1 \<le> 10 * m + n \<and> 10 * m + n \<le> 12) then Inl (RangeError ''string'')
          else (let date = \<lparr>year = 1000 * a + 100 * b + 10 * c + d, month = 10 * m + n, day = 1\<rparr>;
                    rest = drop 7 str
                in if rest = [] then Inr (date, None)
                   else if take 6 rest = ''[u-ca='' \<and> 7 < length rest \<and> last rest = CHR '']''
                   then Inr (date, Some (butlast (drop 6 rest)))
                   else Inl (NotModelled ''string''))
      | _ \<Rightarrow> Inl (NotModelled ''string''))"

text \<open>
  Modelled from the spec: \<^verbatim>\<open>GetDifferenceSettings\<close> (Temporal.cpp, missing), as the
  specification resolves the settings (section 4.5, step 1): the units of the date
  group, no unit finer than the smallest allowed unit, an increment from 1 to
  1000000000, a known rounding mode (negated for since), and a smallest unit that is not
  coarser than the largest; every invalid value or combination is a range error.
\<close>

fun host_unit_rank :: "TemporalUnit \<Rightarrow> nat" where
  "host_unit_rank Auto = 0"
| "host_unit_rank Year = 1"
| "host_unit_rank Month = 2"
| "host_unit_rank Week = 3"
| "host_unit_rank Day = 4"
| "host_unit_rank Hour = 5"
| "host_unit_rank Minute = 6"
| "host_unit_rank Second = 7"
| "host_unit_rank Millisecond = 8"
| "host_unit_rank Microsecond = 9"
| "host_unit_rank Nanosecond = 10"

definition host_unit_names :: "(string \<times> TemporalUnit) list" where
  "host_unit_names =
     [(''year'', Year), (''years'', Year), (''month'', Month), (''months'', Month),
      (''week'', Week), (''weeks'', Week), (''day'', Day), (''days'', Day),
      (''hour'', Hour), (''hours'', Hour), (''minute'', Minute), (''minutes'', Minute),
      (''second'', Second), (''seconds'', Second), (''millisecond'', Millisecond),
      (''milliseconds'', Millisecond), (''microsecond'', Microsecond),
      (''microseconds'', Microsecond), (''nanosecond'', Nanosecond),
      (''nanoseconds'', Nanosecond)]"

definition host_GetTemporalUnit ::
  "string option \<Rightarrow> TemporalUnit \<Rightarrow> bool \<Rightarrow> exception + TemporalUnit" where
  "host_GetTemporalUnit property fallback autoAllowed =
     (case property of
        None \<Rightarrow> Inr fallback
      | Some name \<Rightarrow>
          if name = ''auto'' then (if autoAllowed then Inr Auto else Inl (RangeError ''unit''))
          else (case map_of host_unit_names name of
                  None \<Rightarrow> Inl (RangeError ''unit'')
                | Some u \<Rightarrow> if host_unit_rank u \<le> host_unit_rank Day then Inr u
                            else Inl (RangeError ''unit'')))"

definition host_rounding_modes :: "(string \<times> TemporalRoundingMode) list" where
  "host_rounding_modes =
     [(''ceil'', Ceil), (''floor'', Floor), (''expand'', Expand), (''trunc'', Trunc),
      (''halfCeil'', HalfCeil), (''halfFloor'', HalfFloor), (''halfExpand'', HalfExpand),
      (''halfTrunc'', HalfTrunc), (''halfEven'', HalfEven)]"

fun host_NegateRoundingMode :: "TemporalRoundingMode \<Rightarrow> TemporalRoundingMode" where
  "host_NegateRoundingMode Ceil = Floor"
| "host_NegateRoundingMode Floor = Ceil"
| "host_NegateRoundingMode HalfCeil = HalfFloor"
| "host_NegateRoundingMode HalfFloor = HalfCeil"
| "host_NegateRoundingMode m = m"

definition host_resolve_settings ::
  "TemporalDifference \<Rightarrow> string option \<Rightarrow> int option \<Rightarrow> string option \<Rightarrow> string option
    \<Rightarrow> TemporalUnit \<Rightarrow> TemporalUnit \<Rightarrow> TemporalUnit \<Rightarrow> exception + DifferenceSettings" where
  "host_resolve_settings operation lu ri rm su smallestAllowedUnit fallbackSmallestUnit
     smallestLargestDefaultUnit =
     (case host_GetTemporalUnit lu Auto True of
        Inl e \<Rightarrow> Inl e
      | Inr largest \<Rightarrow>
          if host_unit_rank largest > host_unit_rank smallestAllowedUnit
          then Inl (RangeError ''largestUnit'')
          else if \<not> (case ri of None \<Rightarrow> True | Some n \<Rightarrow> 1 \<le> n \<and> n \<le> 1000000000)
          then Inl (RangeError ''roundingIncrement'')
          else (case (case rm of None \<Rightarrow> Some Trunc | Some name \<Rightarrow> map_of host_rounding_modes name) of
                  None \<Rightarrow> Inl (RangeError ''roundingMode'')
                | Some mode \<Rightarrow>
                   (case host_GetTemporalUnit su fallbackSmallestUnit False of
                      Inl e \<Rightarrow> Inl e
                    | Inr smallest \<Rightarrow>
                        if host_unit_rank smallest > host_unit_rank smallestAllowedUnit
                        then Inl (RangeError ''smallestUnit'')
                        else (let defaultLargest =
                                    (if host_unit_rank smallestLargestDefaultUnit
                                          \<le> host_unit_rank smallest
                                     then smallestLargestDefaultUnit else smallest);
                                  largest' = (if largest = Auto then defaultLargest else largest)
                              in if host_unit_rank largest' > host_unit_rank smallest
                                 then Inl (RangeError ''largestUnit'')
                                 else Inr \<lparr>smallestUnit = smallest, largestUnit = largest',
                                           roundingMode =
                                             (if operation = Since
                                              then host_NegateRoundingMode mode else mode),
                                           roundingIncrement =
                                             (case ri of None \<Rightarrow> 1 | Some n \<Rightarrow> n)\<rparr>))))"

definition host_GetDifferenceSettings ::
  "TemporalDifference \<Rightarrow> PlainObject JSObject \<Rightarrow> TemporalUnitGroup \<Rightarrow> TemporalUnit
    \<Rightarrow> TemporalUnit \<Rightarrow> TemporalUnit \<Rightarrow> exception + DifferenceSettings" where
  "host_GetDifferenceSettings operation options unitGroup smallestAllowedUnit
     fallbackSmallestUnit smallestLargestDefaultUnit =
     (if unitGroup \<noteq> Date then Inl (NotModelled ''unit group'')
      else case options of
        OtherObject (DifferenceOptions lu ri rm su) \<Rightarrow>
          host_resolve_settings operation lu ri rm su smallestAllowedUnit fallbackSmallestUnit
            smallestLargestDefaultUnit
      | _ \<Rightarrow>
          host_resolve_settings operation None None None None smallestAllowedUnit
            fallbackSmallestUnit smallestLargestDefaultUnit)"

text \<open>
  Modelled from the spec: \<^verbatim>\<open>GetTemporalOverflowOption\<close> (Temporal.cpp, missing),
  \<^verbatim>\<open>ToTemporalDurationRecord\<close>, \<^verbatim>\<open>ThrowIfInvalidDuration\<close>, \<^verbatim>\<open>NormalizeTimeDuration\<close> and
  \<^verbatim>\<open>BalanceTimeDuration\<close> (Duration.cpp, missing), and \<^verbatim>\<open>GetUTCEpochNanoseconds\<close>: the
  overflow option, duration records with one sign and bounded fields, and the balancing
  of the time fields into days.
\<close>

definition host_GetTemporalOverflowOption ::
  "PlainObject JSObject \<Rightarrow> TemporalOverflow \<Rightarrow> exception + TemporalOverflow" where
  "host_GetTemporalOverflowOption options overflow =
     (case options of
        OtherObject (OverflowOptions (Some name)) \<Rightarrow>
          if name = ''constrain'' then Inr Constrain
          else if name = ''reject'' then Inr Reject
          else Inl (RangeError ''overflow'')
      | _ \<Rightarrow> Inr overflow)"

definition host_time_nanoseconds :: "Duration \<Rightarrow> int" where
  "host_time_nanoseconds d =
     ((((hours d * 60 + minutes d) * 60 + seconds d) * 1000 + milliseconds d) * 1000
        + microseconds d) * 1000 + nanoseconds d"

definition host_IsValidDuration :: "Duration \<Rightarrow> bool" where
  "host_IsValidDuration d =
     (let vs = [years d, months d, weeks d, days d, hours d, minutes d, seconds d,
                milliseconds d, microseconds d, nanoseconds d]
      in (list_all (\<lambda>v. 0 \<le> v) vs \<or> list_all (\<lambda>v. v \<le> 0) vs)
         \<and> \<bar>years d\<bar> < 2 ^ 32 \<and> \<bar>months d\<bar> < 2 ^ 32 \<and> \<bar>weeks d\<bar> < 2 ^ 32
         \<and> \<bar>days d * 86400000000000 + host_time_nanoseconds d\<bar> < 2 ^ 53 * 1000000000)"

definition host_ThrowIfInvalidDuration :: "Duration \<Rightarrow> exception option" where
  "host_ThrowIfInvalidDuration d =
     (if host_IsValidDuration d then None else Some (RangeError ''duration''))"

definition host_ToTemporalDurationRecord :: "PlainObject Value \<Rightarrow> exception + Duration" where
  "host_ToTemporalDurationRecord v =
     (case v of
        ObjectValue (OtherObject (DurationLike y mo w d h mi s ms us ns)) \<Rightarrow>
          if list_all (\<lambda>p. p = None) [y, mo, w, d, h, mi, s, ms, us, ns]
          then Inl (TypeError ''duration'')
          else (let r = \<lparr>years = case_option 0 id y, months = case_option 0 id mo,
                          weeks = case_option 0 id w, days = case_option 0 id d,
                          hours = case_option 0 id h, minutes = case_option 0 id mi,
                          seconds = case_option 0 id s, milliseconds = case_option 0 id ms,
                          microseconds = case_option 0 id us,
                          nanoseconds = case_option 0 id ns\<rparr>
                in if host_IsValidDuration r then Inr r else Inl (RangeError ''duration''))
      | StringValue str \<Rightarrow> Inl (NotModelled ''string'')
      | _ \<Rightarrow> Inl (TypeError ''duration''))"

definition host_NormalizeTimeDuration :: "Duration \<Rightarrow> NormalizedTimeDuration" where
  "host_NormalizeTimeDuration d =
     NormalizedTimeDuration (host_time_nanoseconds d div 1000000000)
       (host_time_nanoseconds d mod 1000000000)"

definition host_BalanceTimeDuration :: "NormalizedTimeDuration \<Rightarrow> TemporalUnit \<Rightarrow> TimeDuration"
  where
  "host_BalanceTimeDuration t unit =
     (case t of NormalizedTimeDuration s n \<Rightarrow>
      (let total = s * 1000000000 + n; sg = sgn total; a = \<bar>total\<bar>;
           ns = (if unit = Nanosecond then a else a mod 1000);
           us_total = (if unit = Nanosecond then 0 else a div 1000);
           us = (if unit = Microsecond then us_total else us_total mod 1000);
           ms_total = (if unit = Microsecond then 0 else us_total div 1000);
           ms = (if unit = Millisecond then ms_total else ms_total mod 1000);
           s_total = (if unit = Millisecond then 0 else ms_total div 1000);
           sec = (if unit = Second then s_total else s_total mod 60);
           m_total = (if unit = Second then 0 else s_total div 60);
           mi = (if unit = Minute then m_total else m_total mod 60);
           h_total = (if unit = Minute then 0 else m_total div 60);
           h = (if unit = Hour then h_total else h_total mod 24);
           d = (if unit = Hour then 0 else h_total div 24)
       in TimeDuration (sg * d) (sg * h) (sg * mi) (sg * sec) (sg * ms) (sg * us) (sg * ns)))"

fun host_GetUTCEpochNanoseconds :: "PlainDateTime \<Rightarrow> int" where
  "host_GetUTCEpochNanoseconds (PlainDateTime d t) =
     host_days_from_civil (year d) (month d) (day d) * 86400000000000
       + ((((hour t * 60 + minute t) * 60 + second t) * 1000 + millisecond t) * 1000
            + microsecond t) * 1000 + nanosecond t"

text \<open>
  Modelled from the spec: the record of the missing collaborators, for the fragment.
  \<^verbatim>\<open>CalendarDay\<close> is the ISO day; \<^verbatim>\<open>RoundRelativeDuration\<close> is outside the fragment.
\<close>

definition host :: "(PlainObject, exception) collaborators" where
  "host =
     \<lparr>GetTemporalCalendarWithISODefault = host_GetTemporalCalendarWithISODefault,
      PrepareCalendarFields = host_PrepareCalendarFields,
      PrepareCalendarFieldsAndFieldNames = host_PrepareCalendarFields,
      PrepareTemporalFields = host_prepare,
      CalendarYearMonthFromFields = host_CalendarYearMonthFromFields,
      CalendarYearMonthFromFields_object = host_CalendarYearMonthFromFields_object,
      CalendarDateFromFields = host_CalendarDateFromFields,
      CalendarDateAdd = host_AddISODate,
      AddDate = host_AddISODate,
      CalendarDateUntil = host_CalendarDateUntil,
      CalendarDay =
        (\<lambda>cal d. if cal \<noteq> ISO8601 then Inl (NotModelled ''calendar'') else Inr (day d)),
      CreateTemporalDate = host_CreateTemporalDate,
      BalanceISODate = host_BalanceISODate,
      ParseTemporalYearMonthString = host_ParseTemporalYearMonthString,
      ToBuiltinCalendar = host_ToBuiltinCalendar,
      GetDifferenceSettings = host_GetDifferenceSettings,
      GetTemporalOverflowOption = host_GetTemporalOverflowOption,
      ToTemporalDurationRecord = host_ToTemporalDurationRecord,
      ThrowIfInvalidDuration = host_ThrowIfInvalidDuration,
      NormalizeTimeDuration = host_NormalizeTimeDuration,
      BalanceTimeDuration = host_BalanceTimeDuration,
      GetUTCEpochNanoseconds = host_GetUTCEpochNanoseconds,
      RoundRelativeDuration =
        (\<lambda>duration destEpochNs dateTime cal timeZone largest increment smallest mode.
           Inl (NotModelled ''rounding''))\<rparr>"


text \<open>ISO year-months with reference day 1, as records and as argument values.\<close>

definition iso_year_month :: "int \<Rightarrow> int \<Rightarrow> PlainYearMonthWithCalendar" where
  "iso_year_month y m = PlainYearMonthWithCalendar \<lparr>year = y, month = m, day = 1\<rparr> ISO8601"

definition iso_year_month_value :: "int \<Rightarrow> int \<Rightarrow> PlainObject Value" where
  "iso_year_month_value y m = ObjectValue (PlainYearMonthObject (iso_year_month y m))"


section \<open>Construction: the two checks\<close>

lemma within_limits_range:
  "ISOYearMonthWithinLimits y m \<longleftrightarrow> (- 271821, 4) \<le> (y, m) \<and> (y, m) \<le> (275760, 9)"
  by (auto simp: ISOYearMonthWithinLimits_def)

text \<open>
  Claim C4, as amended. Construction succeeds only when the triple is a valid date of
  the proleptic Gregorian calendar and the pair of year and month lies in the closed
  range from (-271821, 4) to (275760, 9) (and, allocation aside, always then), and the
  year-month then holds the triple and the calendar. A valid date whose pair lies outside the range fails with the range
  error plain-year-month-invalid; an invalid date fails before the range is looked at,
  with the range error of the date check.
\<close>

theorem CreateTemporalYearMonth_invariants:
  "((CreateTemporalYearMonth y m d cal :: 'x error + PlainYearMonthWithCalendar) = Inr ym \<longleftrightarrow>
      IsValidISODate y m d \<and> (- 271821, 4) \<le> (y, m) \<and> (y, m) \<le> (275760, 9)
      \<and> ym = PlainYearMonthWithCalendar \<lparr>year = y, month = m, day = d\<rparr> cal)
   \<and> ((CreateTemporalYearMonth y m d cal :: 'x error + PlainYearMonthWithCalendar)
         = Inl RangeError_PlainYearMonthInvalid \<longleftrightarrow>
      IsValidISODate y m d \<and> \<not> ((- 271821, 4) \<le> (y, m) \<and> (y, m) \<le> (275760, 9)))
   \<and> ((CreateTemporalYearMonth y m d cal :: 'x error + PlainYearMonthWithCalendar)
         = Inl RangeError_InvalidISODate \<longleftrightarrow> \<not> IsValidISODate y m d)"
  by (auto simp: CreateTemporalYearMonth_def ThrowIfInvalidISODate_def within_limits_range
        simp del: less_eq_prod_simp)

theorem CreateTemporalYearMonth_invariants_witness:
  "(CreateTemporalYearMonth 2020 2 29 ISO8601 :: unit error + PlainYearMonthWithCalendar)
     = Inr (PlainYearMonthWithCalendar \<lparr>year = 2020, month = 2, day = 29\<rparr> ISO8601)
   \<and> (CreateTemporalYearMonth 275760 10 1 ISO8601 :: unit error + PlainYearMonthWithCalendar)
     = Inl RangeError_PlainYearMonthInvalid
   \<and> (CreateTemporalYearMonth 2021 2 29 ISO8601 :: unit error + PlainYearMonthWithCalendar)
     = Inl RangeError_InvalidISODate"
  using
    CreateTemporalYearMonth_invariants [of 2020 2 29 ISO8601
      "PlainYearMonthWithCalendar \<lparr>year = 2020, month = 2, day = 29\<rparr> ISO8601",
      where ?'x = unit]
    CreateTemporalYearMonth_invariants [of 275760 10 1 ISO8601, where ?'x = unit]
    CreateTemporalYearMonth_invariants [of 2021 2 29 ISO8601, where ?'x = unit]
  by (simp add: IsValidISODate_def ISODaysInMonth_def IsLeapYear_def)

text \<open>
  The claim as stated fails: the pair (275760, 10) lies outside the range, and with the
  day 32 construction fails in the date check, not with plain-year-month-invalid.
\<close>

theorem CreateTemporalYearMonth_out_of_range_counterexample:
  "\<not> ((- 271821, 4) \<le> (275760 :: int, 10 :: int) \<and> (275760 :: int, 10 :: int) \<le> (275760, 9))
   \<and> (CreateTemporalYearMonth 275760 10 32 ISO8601 :: unit error + PlainYearMonthWithCalendar)
       \<noteq> Inl RangeError_PlainYearMonthInvalid"
  by (simp add: CreateTemporalYearMonth_def ThrowIfInvalidISODate_def IsValidISODate_def
        ISODaysInMonth_def)

section \<open>Comparison and equality: properties\<close>

lemma iso_triple_eq: "iso_triple a = iso_triple b \<longleftrightarrow> a = b"
  by (cases a, cases b) (simp add: iso_triple_def)

lemma CompareISODate_lex:
  "CompareISODate a b =
     (if iso_triple a < iso_triple b then - 1 else if iso_triple a = iso_triple b then 0 else 1)"
  by (auto simp: CompareISODate_def iso_triple_def)

lemma CompareISODate_range: "CompareISODate a b \<in> {- 1, 0, 1}"
  by (simp add: CompareISODate_def)

lemma CompareISODate_antisym: "CompareISODate b a = - CompareISODate a b"
  by (auto simp: CompareISODate_def)

lemma CompareISODate_trans:
  "CompareISODate a b \<le> 0 \<Longrightarrow> CompareISODate b c \<le> 0 \<Longrightarrow> CompareISODate a c \<le> 0"
  unfolding CompareISODate_lex by (auto split: if_splits)

lemma CompareISODate_trans_strict:
  "CompareISODate a b < 0 \<Longrightarrow> CompareISODate b c < 0 \<Longrightarrow> CompareISODate a c < 0"
  unfolding CompareISODate_lex by (auto split: if_splits)

lemma CompareISODate_refl: "CompareISODate a a = 0"
  by (simp add: CompareISODate_def)

lemma ToTemporalYearMonth_constrain_object [simp]:
  "ToTemporalYearMonth_constrain env (ObjectValue (PlainYearMonthObject ym)) = Inr ym"
  by (simp add: ToTemporalYearMonth_constrain_def ToTemporalYearMonth_def
        ToTemporalYearMonth_object_def)

text \<open>
  Claim C8. For arguments that convert to year-months, compare returns -1, 0 or 1 by the
  lexicographic order of the two ISO triples, whatever the calendars; it is
  antisymmetric (swapping the arguments negates the result), transitive, and zero on
  equal arguments.
\<close>

theorem PlainYearMonth_compare_total_order:
  assumes a: "ToTemporalYearMonth_constrain env a = Inr a'"
      and b: "ToTemporalYearMonth_constrain env b = Inr b'"
      and c: "ToTemporalYearMonth_constrain env c = Inr c'"
  shows "PlainYearMonth_compare env a b =
           Inr (if iso_triple (ToPlainDate a') < iso_triple (ToPlainDate b') then - 1
                else if iso_triple (ToPlainDate a') = iso_triple (ToPlainDate b') then 0
                else 1)
       \<and> (\<exists>ab bc ac.
             PlainYearMonth_compare env a b = Inr ab \<and> ab \<in> {- 1, 0, 1}
           \<and> PlainYearMonth_compare env b a = Inr (- ab)
           \<and> PlainYearMonth_compare env b c = Inr bc
           \<and> PlainYearMonth_compare env a c = Inr ac
           \<and> (ab \<le> 0 \<and> bc \<le> 0 \<longrightarrow> ac \<le> 0)
           \<and> (ab < 0 \<and> bc < 0 \<longrightarrow> ac < 0))
       \<and> PlainYearMonth_compare env a a = Inr 0"
proof -
  let ?A = "ToPlainDate a'" and ?B = "ToPlainDate b'" and ?C = "ToPlainDate c'"
  have ab: "PlainYearMonth_compare env a b = Inr (CompareISODate ?A ?B)"
    and ba: "PlainYearMonth_compare env b a = Inr (CompareISODate ?B ?A)"
    and bc: "PlainYearMonth_compare env b c = Inr (CompareISODate ?B ?C)"
    and ac: "PlainYearMonth_compare env a c = Inr (CompareISODate ?A ?C)"
    and aa: "PlainYearMonth_compare env a a = Inr (CompareISODate ?A ?A)"
    using a b c by (simp_all add: PlainYearMonth_compare_def)
  have 1: "PlainYearMonth_compare env a b =
           Inr (if iso_triple ?A < iso_triple ?B then - 1
                else if iso_triple ?A = iso_triple ?B then 0 else 1)"
    using ab by (simp only: CompareISODate_lex)
  have 2: "\<exists>ab bc ac.
             PlainYearMonth_compare env a b = Inr ab \<and> ab \<in> {- 1, 0, 1}
           \<and> PlainYearMonth_compare env b a = Inr (- ab)
           \<and> PlainYearMonth_compare env b c = Inr bc
           \<and> PlainYearMonth_compare env a c = Inr ac
           \<and> (ab \<le> 0 \<and> bc \<le> 0 \<longrightarrow> ac \<le> 0)
           \<and> (ab < 0 \<and> bc < 0 \<longrightarrow> ac < 0)"
    using ab ba bc ac CompareISODate_range [of ?A ?B] CompareISODate_antisym [of ?B ?A]
      CompareISODate_trans [of ?A ?B ?C] CompareISODate_trans_strict [of ?A ?B ?C]
    by (intro exI [of _ "CompareISODate ?A ?B"] exI [of _ "CompareISODate ?B ?C"]
          exI [of _ "CompareISODate ?A ?C"]) simp
  have 3: "PlainYearMonth_compare env a a = Inr 0"
    using aa by (simp add: CompareISODate_refl)
  from 1 2 3 show ?thesis by blast
qed

theorem PlainYearMonth_compare_total_order_witness:
  "PlainYearMonth_compare host (iso_year_month_value 2020 1) (StringValue ''2021-03'') = Inr (- 1)
   \<and> PlainYearMonth_compare host (StringValue ''2021-03'') (iso_year_month_value 2020 1) = Inr 1
   \<and> PlainYearMonth_compare host (StringValue ''2021-03'')
        (ObjectValue (OtherObject (YearMonthLike None (Some 2021) (Some 15) None))) = Inr (- 1)
   \<and> PlainYearMonth_compare host (iso_year_month_value 2020 1)
        (ObjectValue (OtherObject (YearMonthLike None (Some 2021) (Some 15) None))) = Inr (- 1)
   \<and> PlainYearMonth_compare host (iso_year_month_value 2020 1) (iso_year_month_value 2020 1)
        = Inr 0"
proof -
  have a: "ToTemporalYearMonth_constrain host (iso_year_month_value 2020 1)
             = Inr (iso_year_month 2020 1)"
    by code_simp
  have b: "ToTemporalYearMonth_constrain host (StringValue ''2021-03'')
             = Inr (iso_year_month 2021 3)"
    by code_simp
  have c: "ToTemporalYearMonth_constrain host
             (ObjectValue (OtherObject (YearMonthLike None (Some 2021) (Some 15) None)))
             = Inr (iso_year_month 2021 12)"
    by code_simp
  from PlainYearMonth_compare_total_order [OF a b c]
       PlainYearMonth_compare_total_order [OF b c a]
       PlainYearMonth_compare_total_order [OF a c b]
  show ?thesis
    by (auto simp: iso_triple_def iso_year_month_def)
qed

text \<open>
  Claim C9. For an argument that converts to a year-month, equals returns true iff the
  ISO triples are identical and the calendar identifiers are equal; when it returns true,
  compare returns 0; and the converse fails: two year-months with the same ISO triple
  and different calendars compare as 0 and are not equal.
\<close>

theorem PlainYearMonth_equals_iff:
  assumes conv: "ToTemporalYearMonth_constrain env item = Inr other"
  shows "PlainYearMonth_equals env yearMonth item =
           Inr (iso_triple (ToPlainDate yearMonth) = iso_triple (ToPlainDate other)
                \<and> ToTemporalCalendarIdentifier (calendar yearMonth)
                    = ToTemporalCalendarIdentifier (calendar other))
       \<and> (PlainYearMonth_equals env yearMonth item = Inr True \<longrightarrow>
            PlainYearMonth_compare env (ObjectValue (PlainYearMonthObject yearMonth)) item = Inr 0)
       \<and> PlainYearMonth_compare env
            (ObjectValue (PlainYearMonthObject
               (PlainYearMonthWithCalendar \<lparr>year = 2020, month = 1, day = 1\<rparr> ISO8601)))
            (ObjectValue (PlainYearMonthObject
               (PlainYearMonthWithCalendar \<lparr>year = 2020, month = 1, day = 1\<rparr>
                  (CalendarValue ''gregory'')))) = Inr 0
       \<and> PlainYearMonth_equals env
            (PlainYearMonthWithCalendar \<lparr>year = 2020, month = 1, day = 1\<rparr> ISO8601)
            (ObjectValue (PlainYearMonthObject
               (PlainYearMonthWithCalendar \<lparr>year = 2020, month = 1, day = 1\<rparr>
                  (CalendarValue ''gregory'')))) = Inr False"
  using conv
  by (simp add: PlainYearMonth_equals_def PlainYearMonth_compare_def CalendarEquals_def
        iso_triple_eq CompareISODate_refl ISO8601_def)

theorem PlainYearMonth_equals_iff_witness:
  "PlainYearMonth_equals host (iso_year_month 2020 1) (StringValue ''2020-01'') = Inr True
   \<and> PlainYearMonth_compare host (iso_year_month_value 2020 1) (StringValue ''2020-01'') = Inr 0"
proof -
  have conv: "ToTemporalYearMonth_constrain host (StringValue ''2020-01'')
                = Inr (iso_year_month 2020 1)"
    by code_simp
  from PlainYearMonth_equals_iff [OF conv, of "iso_year_month 2020 1"]
  show ?thesis
    by (simp add: iso_year_month_value_def)
qed

section \<open>Difference: properties\<close>

lemma CreateTemporalYearMonth_date_valid:
  "IsValidISODate (year d) (month d) (day d) \<Longrightarrow> ISOYearMonthWithinLimits (year d) (month d) \<Longrightarrow>
   CreateTemporalYearMonth_date d cal = Inr (PlainYearMonthWithCalendar d cal)"
  by (simp add: CreateTemporalYearMonth_date_def ThrowIfInvalidISODate_def)

lemma CreateTemporalYearMonth_ym_valid:
  "IsValidISODate (year (ToPlainDate ym)) (month (ToPlainDate ym)) (day (ToPlainDate ym)) \<Longrightarrow>
   ISOYearMonthWithinLimits (year (ToPlainDate ym)) (month (ToPlainDate ym)) \<Longrightarrow>
   CreateTemporalYearMonth_ym ym = Inr ym"
  by (simp add: CreateTemporalYearMonth_ym_def CreateTemporalYearMonth_date_def
        ThrowIfInvalidISODate_def)

lemma Difference_otherYearMonth_valid:
  assumes "ToTemporalYearMonth_constrain env item = Inr other"
      and "IsValidISODate (year (ToPlainDate other)) (month (ToPlainDate other))
             (day (ToPlainDate other))"
      and "ISOYearMonthWithinLimits (year (ToPlainDate other)) (month (ToPlainDate other))"
  shows "Difference_otherYearMonth item other = Inr (PlainYearMonthObject other)"
proof (cases "\<exists>ym. item = ObjectValue (PlainYearMonthObject ym)")
  case True
  then obtain ym where "item = ObjectValue (PlainYearMonthObject ym)" by blast
  with assms(1) show ?thesis by (simp add: Difference_otherYearMonth_def)
next
  case False
  then have "Difference_otherYearMonth item other =
      (case CreateTemporalYearMonth_ym other of Inl e \<Rightarrow> Inl e
       | Inr obj \<Rightarrow> Inr (PlainYearMonthObject obj))"
    by (auto simp: Difference_otherYearMonth_def split: Value.splits JSObject.splits)
  with assms(2,3) show ?thesis by (simp add: CreateTemporalYearMonth_ym_valid)
qed

lemma call_Inl: "call r = Inl e \<Longrightarrow> \<exists>x. e = Thrown x"
  by (auto simp: call_def split: sum.splits)

lemma CreateTemporalDuration_Inl: "CreateTemporalDuration env d = Inl e \<Longrightarrow> \<exists>x. e = Thrown x"
  by (auto simp: CreateTemporalDuration_def split: option.splits)

lemma CreateTemporalDuration_Inr: "CreateTemporalDuration env d = Inr d' \<Longrightarrow> d' = d"
  by (auto simp: CreateTemporalDuration_def split: option.splits)

lemma Difference_settings_Inl:
  "Difference_settings env operation opts = Inl e \<Longrightarrow> e = TypeError_ObjectRequired \<or> (\<exists>x. e = Thrown x)"
  by (auto simp: Difference_settings_def RequireObjectArg_def dest: call_Inl
        split: if_splits sum.splits Value.splits)

lemma Difference_steps_8_17_Inl:
  "Difference_steps_8_17 env operation yearMonth otherYearMonth cal settings = Inl e \<Longrightarrow>
   \<exists>x. e = Thrown x"
  unfolding Difference_steps_8_17_def Let_def
  by (auto dest: call_Inl CreateTemporalDuration_Inl split: sum.splits if_splits)

lemma Difference_after_conversion:
  assumes conv: "ToTemporalYearMonth_constrain env item = Inr other"
      and valid: "IsValidISODate (year (ToPlainDate other)) (month (ToPlainDate other))
                    (day (ToPlainDate other))"
      and limits: "ISOYearMonthWithinLimits (year (ToPlainDate other)) (month (ToPlainDate other))"
  shows "DifferenceTemporalPlainYearMonth env operation yearMonth item opts =
     (if \<not> CalendarEquals (calendar yearMonth) (calendar other)
      then Inl (RangeError_CalendarIncompatible
                  (ToTemporalCalendarIdentifier (calendar yearMonth))
                  (ToTemporalCalendarIdentifier (calendar other)))
      else
     (case Difference_settings env operation opts of
        Inl e \<Rightarrow> Inl e
      | Inr settings \<Rightarrow>
          if ToPlainDate yearMonth = ToPlainDate other
          then CreateTemporalDuration env (Duration_of 0 0)
          else Difference_steps_8_17 env operation yearMonth (PlainYearMonthObject other)
                 (calendar yearMonth) settings))"
  by (simp add: DifferenceTemporalPlainYearMonth_def conv
        Difference_otherYearMonth_valid [OF conv valid limits] Let_def)

text \<open>
  Claim C7. When the other argument converts to a valid year-month, until and since fail
  with the range error calendar-incompatible, carrying the two identifiers, iff the
  calendar identifiers of the receiver and of the converted argument differ.
\<close>

theorem Difference_calendar_incompatible_iff:
  assumes conv: "ToTemporalYearMonth_constrain env item = Inr other"
      and valid: "IsValidISODate (year (ToPlainDate other)) (month (ToPlainDate other))
                    (day (ToPlainDate other))"
      and limits: "ISOYearMonthWithinLimits (year (ToPlainDate other)) (month (ToPlainDate other))"
  shows "DifferenceTemporalPlainYearMonth env operation yearMonth item opts
           = Inl (RangeError_CalendarIncompatible a b) \<longleftrightarrow>
         ToTemporalCalendarIdentifier (calendar yearMonth)
           \<noteq> ToTemporalCalendarIdentifier (calendar other)
         \<and> a = ToTemporalCalendarIdentifier (calendar yearMonth)
         \<and> b = ToTemporalCalendarIdentifier (calendar other)"
proof (cases "CalendarEquals (calendar yearMonth) (calendar other)")
  case False
  then show ?thesis
    by (auto simp: Difference_after_conversion [OF conv valid limits] CalendarEquals_def)
next
  case True
  have "DifferenceTemporalPlainYearMonth env operation yearMonth item opts
          \<noteq> Inl (RangeError_CalendarIncompatible a b)"
    using True
    by (auto simp: Difference_after_conversion [OF conv valid limits]
          dest: Difference_settings_Inl Difference_steps_8_17_Inl CreateTemporalDuration_Inl
          split: sum.splits if_splits)
  with True show ?thesis by (simp add: CalendarEquals_def)
qed

theorem Difference_calendar_incompatible_iff_witness:
  "DifferenceTemporalPlainYearMonth host Until (iso_year_month 2020 1)
     (ObjectValue (PlainYearMonthObject
        (PlainYearMonthWithCalendar \<lparr>year = 2021, month = 3, day = 1\<rparr>
           (CalendarValue ''gregory''))))
     UndefinedValue
     = Inl (RangeError_CalendarIncompatible ''iso8601'' ''gregory'')
   \<and> DifferenceTemporalPlainYearMonth host Until (iso_year_month 2020 1)
       (iso_year_month_value 2021 3) UndefinedValue
     \<noteq> Inl (RangeError_CalendarIncompatible ''iso8601'' ''iso8601'')"
proof -
  let ?g = "PlainYearMonthWithCalendar \<lparr>year = 2021, month = 3, day = 1\<rparr>
              (CalendarValue ''gregory'')"
  have v: "IsValidISODate 2021 3 1" "ISOYearMonthWithinLimits 2021 3"
    by (simp_all add: IsValidISODate_def ISODaysInMonth_def ISOYearMonthWithinLimits_def)
  have 1: "DifferenceTemporalPlainYearMonth host Until (iso_year_month 2020 1)
             (ObjectValue (PlainYearMonthObject ?g)) UndefinedValue
           = Inl (RangeError_CalendarIncompatible ''iso8601'' ''gregory'')"
    using Difference_calendar_incompatible_iff
            [where env = host and item = "ObjectValue (PlainYearMonthObject ?g)" and other = ?g
               and operation = Until and yearMonth = "iso_year_month 2020 1"
               and opts = UndefinedValue and a = "''iso8601''" and b = "''gregory''"] v
    by (simp add: iso_year_month_def ISO8601_def)
  have 2: "DifferenceTemporalPlainYearMonth host Until (iso_year_month 2020 1)
             (iso_year_month_value 2021 3) UndefinedValue
           \<noteq> Inl (RangeError_CalendarIncompatible ''iso8601'' ''iso8601'')"
    using Difference_calendar_incompatible_iff
            [where env = host and item = "iso_year_month_value 2021 3"
               and other = "iso_year_month 2021 3" and operation = Until
               and yearMonth = "iso_year_month 2020 1" and opts = UndefinedValue
               and a = "''iso8601''" and b = "''iso8601''"] v
    by (simp add: iso_year_month_def iso_year_month_value_def ISO8601_def)
  from 1 2 show ?thesis by simp
qed

text \<open>
  Claim C6. The conversion of the other argument, the calendar check and the resolution
  of the options all come before the comparison of the ISO dates: a failure of any of
  them is the result, in this order, also when the two dates are equal. So Y.until(Y,
  options) fails with the exception of \<^verbatim>\<open>GetDifferenceSettings\<close> when the options are
  invalid, and does not return the zero duration.
\<close>

theorem Difference_checks_before_fast_path:
  "(ToTemporalYearMonth_constrain env item = Inl e \<longrightarrow>
      DifferenceTemporalPlainYearMonth env operation yearMonth item opts = Inl e)
   \<and> (ToTemporalYearMonth_constrain env item = Inr other
        \<and> IsValidISODate (year (ToPlainDate other)) (month (ToPlainDate other))
            (day (ToPlainDate other))
        \<and> ISOYearMonthWithinLimits (year (ToPlainDate other)) (month (ToPlainDate other))
        \<and> \<not> CalendarEquals (calendar yearMonth) (calendar other) \<longrightarrow>
      DifferenceTemporalPlainYearMonth env operation yearMonth item opts =
        Inl (RangeError_CalendarIncompatible
               (ToTemporalCalendarIdentifier (calendar yearMonth))
               (ToTemporalCalendarIdentifier (calendar other))))
   \<and> (ToTemporalYearMonth_constrain env item = Inr other
        \<and> IsValidISODate (year (ToPlainDate other)) (month (ToPlainDate other))
            (day (ToPlainDate other))
        \<and> ISOYearMonthWithinLimits (year (ToPlainDate other)) (month (ToPlainDate other))
        \<and> CalendarEquals (calendar yearMonth) (calendar other)
        \<and> Difference_settings env operation opts = Inl e \<longrightarrow>
      DifferenceTemporalPlainYearMonth env operation yearMonth item opts = Inl e)
   \<and> (GetDifferenceSettings env Until options Date Month Month Year = Inl x \<longrightarrow>
      PlainYearMonth_until env yearMonth (ObjectValue (PlainYearMonthObject yearMonth))
        (ObjectValue options) = Inl (Thrown x))"
proof (intro conjI impI)
  assume "ToTemporalYearMonth_constrain env item = Inl e"
  then show "DifferenceTemporalPlainYearMonth env operation yearMonth item opts = Inl e"
    by (simp add: DifferenceTemporalPlainYearMonth_def)
next
  assume h: "ToTemporalYearMonth_constrain env item = Inr other
        \<and> IsValidISODate (year (ToPlainDate other)) (month (ToPlainDate other))
            (day (ToPlainDate other))
        \<and> ISOYearMonthWithinLimits (year (ToPlainDate other)) (month (ToPlainDate other))
        \<and> \<not> CalendarEquals (calendar yearMonth) (calendar other)"
  then show "DifferenceTemporalPlainYearMonth env operation yearMonth item opts =
        Inl (RangeError_CalendarIncompatible
               (ToTemporalCalendarIdentifier (calendar yearMonth))
               (ToTemporalCalendarIdentifier (calendar other)))"
    by (simp add: Difference_after_conversion)
next
  assume h: "ToTemporalYearMonth_constrain env item = Inr other
        \<and> IsValidISODate (year (ToPlainDate other)) (month (ToPlainDate other))
            (day (ToPlainDate other))
        \<and> ISOYearMonthWithinLimits (year (ToPlainDate other)) (month (ToPlainDate other))
        \<and> CalendarEquals (calendar yearMonth) (calendar other)
        \<and> Difference_settings env operation opts = Inl e"
  then show "DifferenceTemporalPlainYearMonth env operation yearMonth item opts = Inl e"
    by (simp add: Difference_after_conversion)
next
  assume "GetDifferenceSettings env Until options Date Month Month Year = Inl x"
  then have "Difference_settings env Until (ObjectValue options) = Inl (Thrown x)"
    by (simp add: Difference_settings_def hasDefined_def RequireObjectArg_def call_def)
  then show "PlainYearMonth_until env yearMonth (ObjectValue (PlainYearMonthObject yearMonth))
        (ObjectValue options) = Inl (Thrown x)"
    by (simp add: PlainYearMonth_until_def DifferenceTemporalPlainYearMonth_def
          Difference_otherYearMonth_def CalendarEquals_def)
qed

theorem Difference_checks_before_fast_path_witness:
  "DifferenceTemporalPlainYearMonth host Until (iso_year_month 2020 1) PrimitiveValue
     UndefinedValue = Inl TypeError_UnexpectedType
   \<and> DifferenceTemporalPlainYearMonth host Until (iso_year_month 2020 1)
       (ObjectValue (PlainYearMonthObject
          (PlainYearMonthWithCalendar \<lparr>year = 2020, month = 1, day = 1\<rparr>
             (CalendarValue ''gregory''))))
       (ObjectValue (OtherObject (DifferenceOptions (Some ''month'') None None (Some ''year''))))
     = Inl (RangeError_CalendarIncompatible ''iso8601'' ''gregory'')
   \<and> DifferenceTemporalPlainYearMonth host Until (iso_year_month 2020 1)
       (iso_year_month_value 2020 1) PrimitiveValue = Inl TypeError_ObjectRequired
   \<and> PlainYearMonth_until host (iso_year_month 2020 1) (iso_year_month_value 2020 1)
       (ObjectValue (OtherObject (DifferenceOptions (Some ''month'') None None (Some ''year''))))
     = Inl (Thrown (RangeError ''largestUnit''))"
proof -
  let ?g = "PlainYearMonthWithCalendar \<lparr>year = 2020, month = 1, day = 1\<rparr>
              (CalendarValue ''gregory'')"
  let ?bad = "OtherObject (DifferenceOptions (Some ''month'') None None (Some ''year''))"
  have v: "IsValidISODate 2020 1 1" "ISOYearMonthWithinLimits 2020 1"
    by (simp_all add: IsValidISODate_def ISODaysInMonth_def ISOYearMonthWithinLimits_def)
  have c1: "ToTemporalYearMonth_constrain host PrimitiveValue = Inl TypeError_UnexpectedType"
    by (simp add: ToTemporalYearMonth_constrain_def ToTemporalYearMonth_def)
  have s3: "Difference_settings host Until PrimitiveValue = Inl TypeError_ObjectRequired"
    by (simp add: Difference_settings_def hasDefined_def RequireObjectArg_def)
  have s4: "GetDifferenceSettings host Until ?bad Date Month Month Year
              = Inl (RangeError ''largestUnit'')"
    by code_simp
  have 1: "DifferenceTemporalPlainYearMonth host Until (iso_year_month 2020 1) PrimitiveValue
             UndefinedValue = Inl TypeError_UnexpectedType"
    using Difference_checks_before_fast_path
            [where env = host and item = PrimitiveValue and e = TypeError_UnexpectedType
               and operation = Until and yearMonth = "iso_year_month 2020 1"
               and opts = UndefinedValue] c1
    by simp
  have 2: "DifferenceTemporalPlainYearMonth host Until (iso_year_month 2020 1)
             (ObjectValue (PlainYearMonthObject ?g)) (ObjectValue ?bad)
           = Inl (RangeError_CalendarIncompatible ''iso8601'' ''gregory'')"
    using Difference_checks_before_fast_path
            [where env = host and item = "ObjectValue (PlainYearMonthObject ?g)"
               and operation = Until and yearMonth = "iso_year_month 2020 1"
               and opts = "ObjectValue ?bad" and other = ?g] v
    by (simp add: iso_year_month_def ISO8601_def CalendarEquals_def)
  have 3: "DifferenceTemporalPlainYearMonth host Until (iso_year_month 2020 1)
             (iso_year_month_value 2020 1) PrimitiveValue = Inl TypeError_ObjectRequired"
    using Difference_checks_before_fast_path
            [where env = host and item = "iso_year_month_value 2020 1"
               and e = TypeError_ObjectRequired and operation = Until
               and yearMonth = "iso_year_month 2020 1" and opts = PrimitiveValue
               and other = "iso_year_month 2020 1"] v s3
    by (simp add: iso_year_month_def iso_year_month_value_def CalendarEquals_def)
  have 4: "PlainYearMonth_until host (iso_year_month 2020 1) (iso_year_month_value 2020 1)
             (ObjectValue ?bad) = Inl (Thrown (RangeError ''largestUnit''))"
    using Difference_checks_before_fast_path
            [where env = host and yearMonth = "iso_year_month 2020 1" and options = ?bad
               and x = "RangeError ''largestUnit''"] s4
    by (simp add: iso_year_month_value_def)
  from 1 2 3 4 show ?thesis by simp
qed

text \<open>
  Claim C2, as amended. When the options are undefined or resolve to settings, the
  difference of two year-months with equal calendars and equal ISO dates is the zero
  duration, created without any call of the calendar; in particular Y.until(Y, options)
  is the zero duration for such options.
\<close>

theorem Difference_equal_anchor_zero:
  "(ToTemporalYearMonth_constrain env item = Inr other
      \<and> IsValidISODate (year (ToPlainDate other)) (month (ToPlainDate other))
          (day (ToPlainDate other))
      \<and> ISOYearMonthWithinLimits (year (ToPlainDate other)) (month (ToPlainDate other))
      \<and> CalendarEquals (calendar yearMonth) (calendar other)
      \<and> Difference_settings env operation opts = Inr settings
      \<and> ToPlainDate yearMonth = ToPlainDate other \<longrightarrow>
    DifferenceTemporalPlainYearMonth env operation yearMonth item opts =
      CreateTemporalDuration env (Duration_of 0 0))
   \<and> (Difference_settings env Until opts = Inr settings \<longrightarrow>
        PlainYearMonth_until env yearMonth (ObjectValue (PlainYearMonthObject yearMonth)) opts
          = CreateTemporalDuration env (Duration_of 0 0))
   \<and> (Difference_settings env Until opts = Inr settings
        \<and> ThrowIfInvalidDuration env (Duration_of 0 0) = None \<longrightarrow>
        PlainYearMonth_until env yearMonth (ObjectValue (PlainYearMonthObject yearMonth)) opts
          = Inr (Duration_of 0 0))"
proof (intro conjI impI)
  assume h: "ToTemporalYearMonth_constrain env item = Inr other
      \<and> IsValidISODate (year (ToPlainDate other)) (month (ToPlainDate other))
          (day (ToPlainDate other))
      \<and> ISOYearMonthWithinLimits (year (ToPlainDate other)) (month (ToPlainDate other))
      \<and> CalendarEquals (calendar yearMonth) (calendar other)
      \<and> Difference_settings env operation opts = Inr settings
      \<and> ToPlainDate yearMonth = ToPlainDate other"
  then show "DifferenceTemporalPlainYearMonth env operation yearMonth item opts =
      CreateTemporalDuration env (Duration_of 0 0)"
    by (simp add: Difference_after_conversion)
next
  assume "Difference_settings env Until opts = Inr settings"
  then show "PlainYearMonth_until env yearMonth (ObjectValue (PlainYearMonthObject yearMonth)) opts
          = CreateTemporalDuration env (Duration_of 0 0)"
    by (simp add: PlainYearMonth_until_def DifferenceTemporalPlainYearMonth_def
          Difference_otherYearMonth_def CalendarEquals_def)
next
  assume "Difference_settings env Until opts = Inr settings
        \<and> ThrowIfInvalidDuration env (Duration_of 0 0) = None"
  then show "PlainYearMonth_until env yearMonth (ObjectValue (PlainYearMonthObject yearMonth)) opts
          = Inr (Duration_of 0 0)"
    by (simp add: PlainYearMonth_until_def DifferenceTemporalPlainYearMonth_def
          Difference_otherYearMonth_def CalendarEquals_def CreateTemporalDuration_def)
qed

theorem Difference_equal_anchor_zero_witness:
  "DifferenceTemporalPlainYearMonth host Since (iso_year_month 2020 1) (StringValue ''2020-01'')
     (ObjectValue (OtherObject (DifferenceOptions (Some ''year'') None None None)))
     = Inr (Duration_of 0 0)
   \<and> PlainYearMonth_until host (iso_year_month 2020 1) (iso_year_month_value 2020 1)
       (ObjectValue (OtherObject (DifferenceOptions (Some ''year'') None None None)))
     = Inr (Duration_of 0 0)
   \<and> PlainYearMonth_until host (iso_year_month 2020 1) (iso_year_month_value 2020 1)
       UndefinedValue = Inr (Duration_of 0 0)"
proof -
  let ?opts = "ObjectValue (OtherObject (DifferenceOptions (Some ''year'') None None None))"
  let ?st = "\<lparr>smallestUnit = Month, largestUnit = Year, roundingMode = Trunc,
              roundingIncrement = 1\<rparr>"
  have v: "IsValidISODate 2020 1 1" "ISOYearMonthWithinLimits 2020 1"
    by (simp_all add: IsValidISODate_def ISODaysInMonth_def ISOYearMonthWithinLimits_def)
  have conv: "ToTemporalYearMonth_constrain host (StringValue ''2020-01'')
                = Inr (iso_year_month 2020 1)"
    by code_simp
  have ss: "Difference_settings host Since ?opts = Inr ?st"
    by code_simp
  have su: "Difference_settings host Until ?opts = Inr ?st"
    by code_simp
  have sd: "Difference_settings host Until UndefinedValue = Inr ?st"
    by (simp add: Difference_settings_def hasDefined_def)
  have z: "ThrowIfInvalidDuration host (Duration_of 0 0) = None"
    by code_simp
  then have cz: "CreateTemporalDuration host (Duration_of 0 0) = Inr (Duration_of 0 0)"
    by (simp add: CreateTemporalDuration_def)
  have 1: "DifferenceTemporalPlainYearMonth host Since (iso_year_month 2020 1)
             (StringValue ''2020-01'') ?opts = Inr (Duration_of 0 0)"
    using Difference_equal_anchor_zero
            [where env = host and item = "StringValue ''2020-01''"
               and other = "iso_year_month 2020 1" and yearMonth = "iso_year_month 2020 1"
               and operation = Since and opts = ?opts and settings = ?st] v conv ss cz
    by (simp add: iso_year_month_def CalendarEquals_def)
  have 2: "PlainYearMonth_until host (iso_year_month 2020 1) (iso_year_month_value 2020 1) ?opts
             = Inr (Duration_of 0 0)"
    using Difference_equal_anchor_zero
            [where env = host and yearMonth = "iso_year_month 2020 1" and opts = ?opts
               and settings = ?st] su z cz
    by (simp add: iso_year_month_value_def)
  have 3: "PlainYearMonth_until host (iso_year_month 2020 1) (iso_year_month_value 2020 1)
             UndefinedValue = Inr (Duration_of 0 0)"
    using Difference_equal_anchor_zero
            [where env = host and yearMonth = "iso_year_month 2020 1" and opts = UndefinedValue
               and settings = ?st] sd z cz
    by (simp add: iso_year_month_value_def)
  from 1 2 3 show ?thesis by simp
qed

text \<open>
  The claim as stated fails: with options whose smallest unit is coarser than the
  largest unit, Y.until(Y, options) does not return the zero duration.
\<close>

theorem until_self_invalid_options_counterexample:
  "PlainYearMonth_until host (iso_year_month 2020 1) (iso_year_month_value 2020 1)
     (ObjectValue (OtherObject (DifferenceOptions (Some ''month'') None None (Some ''year''))))
   \<noteq> Inr (Duration_of 0 0)"
  by code_simp

lemma negate_Duration_of: "negate (Duration_of y m) = Duration_of (- y) (- m)"
  by (simp add: negate_def Duration_of_def)

lemma Difference_steps_8_17_shape:
  "Difference_steps_8_17 env operation yearMonth otherYearMonth cal settings = Inr d \<Longrightarrow>
   \<exists>y m. d = Duration_of y m"
  unfolding Difference_steps_8_17_def Let_def
  by (auto dest!: CreateTemporalDuration_Inr simp: negate_Duration_of
        split: sum.splits if_splits)

lemma Difference_shape:
  assumes "DifferenceTemporalPlainYearMonth env operation yearMonth item opts = Inr d"
  shows "\<exists>y m. d = Duration_of y m"
  using assms unfolding DifferenceTemporalPlainYearMonth_def Let_def
  by (auto dest!: CreateTemporalDuration_Inr Difference_steps_8_17_shape
        split: sum.splits if_splits)

lemma Difference_settings_cases:
  "(opts = UndefinedValue
      \<and> settings = \<lparr>smallestUnit = Month, largestUnit = Year, roundingMode = Trunc,
                      roundingIncrement = 1\<rparr>)
   \<or> (\<exists>options. opts = ObjectValue options
         \<and> GetDifferenceSettings env operation options Date Month Month Year = Inr settings) \<Longrightarrow>
   Difference_settings env operation opts = Inr settings"
  by (auto simp: Difference_settings_def hasDefined_def RequireObjectArg_def call_def)


lemma Difference_zero_fields:
  assumes "DifferenceTemporalPlainYearMonth env operation yearMonth item opts = Inr d"
  shows "weeks d = 0 \<and> days d = 0 \<and> hours d = 0 \<and> minutes d = 0 \<and> seconds d = 0
      \<and> milliseconds d = 0 \<and> microseconds d = 0 \<and> nanoseconds d = 0"
proof -
  from assms obtain y m where "d = Duration_of y m" using Difference_shape by blast
  then show ?thesis by (simp add: Duration_of_def)
qed

lemma Difference_to_steps_8_17:
  fixes env :: "('o, 'x) collaborators"
  assumes conv: "ToTemporalYearMonth_constrain env item = Inr other"
      and valid: "IsValidISODate (year (ToPlainDate other)) (month (ToPlainDate other))
                    (day (ToPlainDate other))"
      and limits: "ISOYearMonthWithinLimits (year (ToPlainDate other)) (month (ToPlainDate other))"
      and ident: "ToTemporalCalendarIdentifier (calendar yearMonth)
                    = ToTemporalCalendarIdentifier (calendar other)"
      and settings:
        "(opts = UndefinedValue
            \<and> settings = \<lparr>smallestUnit = Month, largestUnit = Year, roundingMode = Trunc,
                            roundingIncrement = 1\<rparr>)
         \<or> (\<exists>options. opts = ObjectValue options
               \<and> GetDifferenceSettings env operation options Date Month Month Year
                    = Inr settings)"
      and differ: "ToPlainDate yearMonth \<noteq> ToPlainDate other"
  shows "DifferenceTemporalPlainYearMonth env operation yearMonth item opts =
           Difference_steps_8_17 env operation yearMonth (PlainYearMonthObject other)
             (calendar yearMonth) settings"
  using ident differ Difference_settings_cases [OF settings]
  by (simp add: Difference_after_conversion [OF conv valid limits] CalendarEquals_def)

lemma Difference_unrounded:
  fixes env :: "('o, 'x) collaborators"
  assumes conv: "ToTemporalYearMonth_constrain env item = Inr other"
      and valid: "IsValidISODate (year (ToPlainDate other)) (month (ToPlainDate other))
                    (day (ToPlainDate other))"
      and limits: "ISOYearMonthWithinLimits (year (ToPlainDate other)) (month (ToPlainDate other))"
      and ident: "ToTemporalCalendarIdentifier (calendar yearMonth)
                    = ToTemporalCalendarIdentifier (calendar other)"
      and settings:
        "(opts = UndefinedValue
            \<and> settings = \<lparr>smallestUnit = Month, largestUnit = Year, roundingMode = Trunc,
                            roundingIncrement = 1\<rparr>)
         \<or> (\<exists>options. opts = ObjectValue options
               \<and> GetDifferenceSettings env operation options Date Month Month Year
                    = Inr settings)"
      and differ: "ToPlainDate yearMonth \<noteq> ToPlainDate other"
      and thisFields: "PrepareCalendarFieldsAndFieldNames env (calendar yearMonth)
            (PlainYearMonthObject yearMonth)
            [CalendarField_MonthCode, CalendarField_Year] = Inr thisFields"
      and thisDate: "CalendarDateFromFields env (calendar yearMonth)
            (thisFields\<lparr>day_field := Some 1\<rparr>) Constrain = Inr thisDate"
      and otherFields: "PrepareTemporalFields env (PlainYearMonthObject other) (keys thisFields)
            = Inr otherFields"
      and otherDate: "CalendarDateFromFields env (calendar yearMonth)
            (otherFields\<lparr>day_field := Some 1\<rparr>) Constrain = Inr otherDate"
      and until: "CalendarDateUntil env (calendar yearMonth) thisDate otherDate
            (largestUnit settings) = Inr until"
      and month: "smallestUnit settings = Month"
      and one: "roundingIncrement settings = 1"
  shows "DifferenceTemporalPlainYearMonth env operation yearMonth item opts =
           (case ThrowIfInvalidDuration env
                   \<lparr>years = (if operation = Since then - years_of until else years_of until),
                    months = (if operation = Since then - months_of until else months_of until),
                    weeks = 0, days = 0, hours = 0, minutes = 0, seconds = 0,
                    milliseconds = 0, microseconds = 0, nanoseconds = 0\<rparr> of
              Some x \<Rightarrow> Inl (Thrown x)
            | None \<Rightarrow>
                Inr \<lparr>years = (if operation = Since then - years_of until else years_of until),
                     months = (if operation = Since then - months_of until else months_of until),
                     weeks = 0, days = 0, hours = 0, minutes = 0, seconds = 0,
                     milliseconds = 0, microseconds = 0, nanoseconds = 0\<rparr>)"
  unfolding Difference_to_steps_8_17 [OF conv valid limits ident settings differ]
  using thisFields thisDate otherFields otherDate until month one
  by (simp add: Difference_steps_8_17_def Let_def call_def setDay_def
        CreateTemporalDuration_def Duration_of_def negate_def split: option.splits)

lemma Difference_rounded:
  fixes env :: "('o, 'x) collaborators"
  assumes conv: "ToTemporalYearMonth_constrain env item = Inr other"
      and valid: "IsValidISODate (year (ToPlainDate other)) (month (ToPlainDate other))
                    (day (ToPlainDate other))"
      and limits: "ISOYearMonthWithinLimits (year (ToPlainDate other)) (month (ToPlainDate other))"
      and ident: "ToTemporalCalendarIdentifier (calendar yearMonth)
                    = ToTemporalCalendarIdentifier (calendar other)"
      and settings:
        "(opts = UndefinedValue
            \<and> settings = \<lparr>smallestUnit = Month, largestUnit = Year, roundingMode = Trunc,
                            roundingIncrement = 1\<rparr>)
         \<or> (\<exists>options. opts = ObjectValue options
               \<and> GetDifferenceSettings env operation options Date Month Month Year
                    = Inr settings)"
      and differ: "ToPlainDate yearMonth \<noteq> ToPlainDate other"
      and thisFields: "PrepareCalendarFieldsAndFieldNames env (calendar yearMonth)
            (PlainYearMonthObject yearMonth)
            [CalendarField_MonthCode, CalendarField_Year] = Inr thisFields"
      and thisDate: "CalendarDateFromFields env (calendar yearMonth)
            (thisFields\<lparr>day_field := Some 1\<rparr>) Constrain = Inr thisDate"
      and otherFields: "PrepareTemporalFields env (PlainYearMonthObject other) (keys thisFields)
            = Inr otherFields"
      and otherDate: "CalendarDateFromFields env (calendar yearMonth)
            (otherFields\<lparr>day_field := Some 1\<rparr>) Constrain = Inr otherDate"
      and until: "CalendarDateUntil env (calendar yearMonth) thisDate otherDate
            (largestUnit settings) = Inr until"
      and rounding: "smallestUnit settings \<noteq> Month \<or> roundingIncrement settings \<noteq> 1"
  shows "DifferenceTemporalPlainYearMonth env operation yearMonth item opts =
           (case RoundRelativeDuration env
                   (NormalizedDuration (DateDuration (years_of until) (months_of until) 0 0)
                      (NormalizedTimeDuration 0 0))
                   (GetUTCEpochNanoseconds env
                      (PlainDateTime (date_of otherDate)
                         \<lparr>hour = 0, minute = 0, second = 0, millisecond = 0, microsecond = 0,
                          nanosecond = 0\<rparr>))
                   (PlainDateTime (date_of thisDate)
                      \<lparr>hour = 0, minute = 0, second = 0, millisecond = 0, microsecond = 0,
                       nanosecond = 0\<rparr>)
                   (calendar yearMonth) EmptyTimeZone (largestUnit settings)
                   (roundingIncrement settings) (smallestUnit settings) (roundingMode settings) of
              Inl x \<Rightarrow> Inl (Thrown x)
            | Inr relative \<Rightarrow>
               (case ThrowIfInvalidDuration env
                       \<lparr>years = (if operation = Since then - years relative else years relative),
                        months = (if operation = Since then - months relative else months relative),
                        weeks = 0, days = 0, hours = 0, minutes = 0, seconds = 0,
                        milliseconds = 0, microseconds = 0, nanoseconds = 0\<rparr> of
                  Some x \<Rightarrow> Inl (Thrown x)
                | None \<Rightarrow>
                    Inr \<lparr>years = (if operation = Since then - years relative else years relative),
                         months =
                           (if operation = Since then - months relative else months relative),
                         weeks = 0, days = 0, hours = 0, minutes = 0, seconds = 0,
                         milliseconds = 0, microseconds = 0, nanoseconds = 0\<rparr>))"
  unfolding Difference_to_steps_8_17 [OF conv valid limits ident settings differ]
  using thisFields thisDate otherFields otherDate until rounding
  by (auto simp: Difference_steps_8_17_def Let_def call_def setDay_def midnight_def
        CreateTemporalDuration_def Duration_of_def negate_def toDateDuration_def
        split: sum.splits option.splits)

text \<open>
  Claim C10. Every duration that until or since returns has weeks, days and all time
  components zero. Of the date duration that \<^verbatim>\<open>CalendarDateUntil\<close> returned, only the years
  and the months are kept: without rounding (smallest unit month, increment 1) the
  operation returns the duration with exactly these years and months, negated for since,
  and zero in every other field, provided the duration is valid; with rounding, these
  years and months, with zero weeks and days and a zero time, are what
  \<^verbatim>\<open>RoundRelativeDuration\<close> receives, and the years and months of its result are returned in
  the same way. \<^verbatim>\<open>PlainYearMonth_until\<close> and \<^verbatim>\<open>PlainYearMonth_since\<close> are this operation.
\<close>

theorem Difference_result_years_months_only:
  fixes env :: "('o, 'x) collaborators"
  shows
  "(DifferenceTemporalPlainYearMonth env operation yearMonth item opts = Inr d \<longrightarrow>
      weeks d = 0 \<and> days d = 0 \<and> hours d = 0 \<and> minutes d = 0 \<and> seconds d = 0
      \<and> milliseconds d = 0 \<and> microseconds d = 0 \<and> nanoseconds d = 0)
   \<and> (ToTemporalYearMonth_constrain env item = Inr other
       \<and> IsValidISODate (year (ToPlainDate other)) (month (ToPlainDate other))
            (day (ToPlainDate other))
       \<and> ISOYearMonthWithinLimits (year (ToPlainDate other)) (month (ToPlainDate other))
       \<and> ToTemporalCalendarIdentifier (calendar yearMonth)
            = ToTemporalCalendarIdentifier (calendar other)
       \<and> ((opts = UndefinedValue
             \<and> settings = \<lparr>smallestUnit = Month, largestUnit = Year, roundingMode = Trunc,
                             roundingIncrement = 1\<rparr>)
            \<or> (\<exists>options. opts = ObjectValue options
                 \<and> GetDifferenceSettings env operation options Date Month Month Year
                      = Inr settings))
       \<and> ToPlainDate yearMonth \<noteq> ToPlainDate other
       \<and> PrepareCalendarFieldsAndFieldNames env (calendar yearMonth)
            (PlainYearMonthObject yearMonth)
            [CalendarField_MonthCode, CalendarField_Year] = Inr thisFields
       \<and> CalendarDateFromFields env (calendar yearMonth) (thisFields\<lparr>day_field := Some 1\<rparr>)
            Constrain = Inr thisDate
       \<and> PrepareTemporalFields env (PlainYearMonthObject other) (keys thisFields)
            = Inr otherFields
       \<and> CalendarDateFromFields env (calendar yearMonth) (otherFields\<lparr>day_field := Some 1\<rparr>)
            Constrain = Inr otherDate
       \<and> CalendarDateUntil env (calendar yearMonth) thisDate otherDate (largestUnit settings)
            = Inr until \<longrightarrow>
      (smallestUnit settings = Month \<and> roundingIncrement settings = 1 \<longrightarrow>
         DifferenceTemporalPlainYearMonth env operation yearMonth item opts =
           (case ThrowIfInvalidDuration env
                   \<lparr>years = (if operation = Since then - years_of until else years_of until),
                    months = (if operation = Since then - months_of until else months_of until),
                    weeks = 0, days = 0, hours = 0, minutes = 0, seconds = 0,
                    milliseconds = 0, microseconds = 0, nanoseconds = 0\<rparr> of
              Some x \<Rightarrow> Inl (Thrown x)
            | None \<Rightarrow>
                Inr \<lparr>years = (if operation = Since then - years_of until else years_of until),
                     months = (if operation = Since then - months_of until else months_of until),
                     weeks = 0, days = 0, hours = 0, minutes = 0, seconds = 0,
                     milliseconds = 0, microseconds = 0, nanoseconds = 0\<rparr>))
      \<and> (smallestUnit settings \<noteq> Month \<or> roundingIncrement settings \<noteq> 1 \<longrightarrow>
         DifferenceTemporalPlainYearMonth env operation yearMonth item opts =
           (case RoundRelativeDuration env
                   (NormalizedDuration (DateDuration (years_of until) (months_of until) 0 0)
                      (NormalizedTimeDuration 0 0))
                   (GetUTCEpochNanoseconds env
                      (PlainDateTime (date_of otherDate)
                         \<lparr>hour = 0, minute = 0, second = 0, millisecond = 0, microsecond = 0,
                          nanosecond = 0\<rparr>))
                   (PlainDateTime (date_of thisDate)
                      \<lparr>hour = 0, minute = 0, second = 0, millisecond = 0, microsecond = 0,
                       nanosecond = 0\<rparr>)
                   (calendar yearMonth) EmptyTimeZone (largestUnit settings)
                   (roundingIncrement settings) (smallestUnit settings) (roundingMode settings) of
              Inl x \<Rightarrow> Inl (Thrown x)
            | Inr relative \<Rightarrow>
               (case ThrowIfInvalidDuration env
                       \<lparr>years = (if operation = Since then - years relative else years relative),
                        months = (if operation = Since then - months relative else months relative),
                        weeks = 0, days = 0, hours = 0, minutes = 0, seconds = 0,
                        milliseconds = 0, microseconds = 0, nanoseconds = 0\<rparr> of
                  Some x \<Rightarrow> Inl (Thrown x)
                | None \<Rightarrow>
                    Inr \<lparr>years = (if operation = Since then - years relative else years relative),
                         months =
                           (if operation = Since then - months relative else months relative),
                         weeks = 0, days = 0, hours = 0, minutes = 0, seconds = 0,
                         milliseconds = 0, microseconds = 0, nanoseconds = 0\<rparr>))))
   \<and> PlainYearMonth_until env yearMonth item opts
       = DifferenceTemporalPlainYearMonth env Until yearMonth item opts
   \<and> PlainYearMonth_since env yearMonth item opts
       = DifferenceTemporalPlainYearMonth env Since yearMonth item opts"
  apply (rule conjI)
   apply (rule impI, erule Difference_zero_fields)
  apply (rule conjI)
   apply (rule impI, elim conjE, intro conjI impI)
    apply (elim conjE, rule Difference_unrounded; assumption)
   apply (rule Difference_rounded; assumption)
  apply (simp add: PlainYearMonth_until_def PlainYearMonth_since_def)
  done

theorem Difference_result_years_months_only_witness:
  "PlainYearMonth_until host
     (PlainYearMonthWithCalendar \<lparr>year = 2020, month = 1, day = 1\<rparr> (CalendarValue ''iso8601''))
     (ObjectValue (PlainYearMonthObject
        (PlainYearMonthWithCalendar \<lparr>year = 2021, month = 3, day = 1\<rparr>
           (CalendarValue ''iso8601''))))
     UndefinedValue
     = Inr \<lparr>years = 1, months = 2, weeks = 0, days = 0, hours = 0, minutes = 0, seconds = 0,
            milliseconds = 0, microseconds = 0, nanoseconds = 0\<rparr>
   \<and> PlainYearMonth_since host
       (PlainYearMonthWithCalendar \<lparr>year = 2020, month = 1, day = 1\<rparr> (CalendarValue ''iso8601''))
       (StringValue ''2021-03'')
       (ObjectValue (OtherObject (DifferenceOptions (Some ''month'') None None None)))
     = Inr \<lparr>years = 0, months = - 14, weeks = 0, days = 0, hours = 0, minutes = 0, seconds = 0,
            milliseconds = 0, microseconds = 0, nanoseconds = 0\<rparr>
   \<and> PlainYearMonth_until host
       (PlainYearMonthWithCalendar \<lparr>year = 2020, month = 1, day = 1\<rparr> (CalendarValue ''iso8601''))
       (StringValue ''2021-03'')
       (ObjectValue (OtherObject (DifferenceOptions None None None (Some ''year''))))
     = Inl (Thrown (NotModelled ''rounding''))"
proof -
  let ?cal = "CalendarValue ''iso8601''"
  let ?Y = "PlainYearMonthWithCalendar \<lparr>year = 2020, month = 1, day = 1\<rparr> ?cal"
  let ?Z = "PlainYearMonthWithCalendar \<lparr>year = 2021, month = 3, day = 1\<rparr> ?cal"
  let ?obj = "ObjectValue (PlainYearMonthObject ?Z) :: PlainObject Value"
  let ?str = "StringValue ''2021-03'' :: PlainObject Value"
  let ?months = "OtherObject (DifferenceOptions (Some ''month'') None None None)"
  let ?yearly = "OtherObject (DifferenceOptions None None None (Some ''year''))"
  let ?default = "\<lparr>smallestUnit = Month, largestUnit = Year, roundingMode = Trunc,
                   roundingIncrement = 1\<rparr>"
  let ?monthly = "\<lparr>smallestUnit = Month, largestUnit = Month, roundingMode = Trunc,
                   roundingIncrement = 1\<rparr>"
  let ?rounded = "\<lparr>smallestUnit = Year, largestUnit = Year, roundingMode = Trunc,
                   roundingIncrement = 1\<rparr>"
  let ?thisFields = "\<lparr>year_field = Some 2020, month_field = None, monthCode_field = Some ''M01'',
       day_field = None, era_field = None, eraYear_field = None\<rparr>"
  let ?otherFields = "\<lparr>year_field = Some 2021, month_field = None, monthCode_field = Some ''M03'',
       day_field = None, era_field = None, eraYear_field = None\<rparr>"
  let ?thisDate = "PlainDateWithCalendar \<lparr>year = 2020, month = 1, day = 1\<rparr> ?cal"
  let ?otherDate = "PlainDateWithCalendar \<lparr>year = 2021, month = 3, day = 1\<rparr> ?cal"
  let ?P1Y2M = "\<lparr>years = 1, months = 2, weeks = 0, days = 0, hours = 0, minutes = 0,
                 seconds = 0, milliseconds = 0, microseconds = 0, nanoseconds = 0\<rparr>"
  let ?M14 = "\<lparr>years = 0, months = - 14, weeks = 0, days = 0, hours = 0, minutes = 0,
                seconds = 0, milliseconds = 0, microseconds = 0, nanoseconds = 0\<rparr>"
  have conv_obj: "ToTemporalYearMonth_constrain host ?obj = Inr ?Z"
    by simp
  have conv_str: "ToTemporalYearMonth_constrain host ?str = Inr ?Z"
    by code_simp
  have valid: "IsValidISODate (year (ToPlainDate ?Z)) (month (ToPlainDate ?Z))
                 (day (ToPlainDate ?Z))"
    and limits: "ISOYearMonthWithinLimits (year (ToPlainDate ?Z)) (month (ToPlainDate ?Z))"
    and ident: "ToTemporalCalendarIdentifier (calendar ?Y)
                  = ToTemporalCalendarIdentifier (calendar ?Z)"
    and differ: "ToPlainDate ?Y \<noteq> ToPlainDate ?Z"
    by (simp_all add: IsValidISODate_def ISODaysInMonth_def ISOYearMonthWithinLimits_def)
  have s_months: "GetDifferenceSettings host Since ?months Date Month Month Year = Inr ?monthly"
    by code_simp
  have s_yearly: "GetDifferenceSettings host Until ?yearly Date Month Month Year = Inr ?rounded"
    by code_simp
  have f1: "PrepareCalendarFieldsAndFieldNames host (calendar ?Y) (PlainYearMonthObject ?Y)
              [CalendarField_MonthCode, CalendarField_Year] = Inr ?thisFields"
    by code_simp
  have d1: "CalendarDateFromFields host (calendar ?Y) (?thisFields\<lparr>day_field := Some 1\<rparr>)
              Constrain = Inr ?thisDate"
    by code_simp
  have f2: "PrepareTemporalFields host (PlainYearMonthObject ?Z) (keys ?thisFields)
              = Inr ?otherFields"
    by code_simp
  have d2: "CalendarDateFromFields host (calendar ?Y) (?otherFields\<lparr>day_field := Some 1\<rparr>)
              Constrain = Inr ?otherDate"
    by code_simp
  have u_year: "CalendarDateUntil host (calendar ?Y) ?thisDate ?otherDate Year
                  = Inr (DateDuration 1 2 0 0)"
    by code_simp
  have u_month: "CalendarDateUntil host (calendar ?Y) ?thisDate ?otherDate Month
                   = Inr (DateDuration 0 14 0 0)"
    by code_simp
  have ok1: "ThrowIfInvalidDuration host ?P1Y2M = None"
    by code_simp
  have ok2: "ThrowIfInvalidDuration host ?M14 = None"
    by code_simp
  have r: "RoundRelativeDuration host
             (NormalizedDuration (DateDuration 1 2 0 0) (NormalizedTimeDuration 0 0))
             (GetUTCEpochNanoseconds host
                (PlainDateTime (date_of ?otherDate)
                   \<lparr>hour = 0, minute = 0, second = 0, millisecond = 0, microsecond = 0,
                    nanosecond = 0\<rparr>))
             (PlainDateTime (date_of ?thisDate)
                \<lparr>hour = 0, minute = 0, second = 0, millisecond = 0, microsecond = 0,
                 nanosecond = 0\<rparr>)
             (calendar ?Y) EmptyTimeZone Year 1 Year Trunc = Inl (NotModelled ''rounding'')"
    by (simp add: host_def)
  have 1: "PlainYearMonth_until host ?Y ?obj UndefinedValue = Inr ?P1Y2M"
    using Difference_result_years_months_only
            [where env = host and operation = Until and yearMonth = ?Y and item = ?obj
               and opts = UndefinedValue and d = ?P1Y2M and other = ?Z and settings = ?default
               and thisFields = ?thisFields and thisDate = ?thisDate
               and otherFields = ?otherFields and otherDate = ?otherDate
               and until = "DateDuration 1 2 0 0"]
          conv_obj valid limits ident differ f1 d1 f2 d2 u_year ok1
    by simp
  have 2: "PlainYearMonth_since host ?Y ?str (ObjectValue ?months) = Inr ?M14"
    using Difference_result_years_months_only
            [where env = host and operation = Since and yearMonth = ?Y and item = ?str
               and opts = "ObjectValue ?months" and d = ?M14 and other = ?Z
               and settings = ?monthly
               and thisFields = ?thisFields and thisDate = ?thisDate
               and otherFields = ?otherFields and otherDate = ?otherDate
               and until = "DateDuration 0 14 0 0"]
          conv_str valid limits ident differ s_months f1 d1 f2 d2 u_month ok2
    by simp
  have 3: "PlainYearMonth_until host ?Y ?str (ObjectValue ?yearly)
             = Inl (Thrown (NotModelled ''rounding''))"
    using Difference_result_years_months_only
            [where env = host and operation = Until and yearMonth = ?Y and item = ?str
               and opts = "ObjectValue ?yearly" and d = ?P1Y2M and other = ?Z
               and settings = ?rounded
               and thisFields = ?thisFields and thisDate = ?thisDate
               and otherFields = ?otherFields and otherDate = ?otherDate
               and until = "DateDuration 1 2 0 0"]
          conv_str valid limits ident differ s_yearly f1 d1 f2 d2 u_year r
    by simp
  from 1 2 3 show ?thesis by simp
qed

lemma Difference_steps_8_17_since_until:
  "(\<exists>e. Difference_steps_8_17 env Until yearMonth otherYearMonth cal settings = Inl e
        \<and> Difference_steps_8_17 env Since yearMonth otherYearMonth cal settings = Inl e)
   \<or> (\<exists>d. Difference_steps_8_17 env Until yearMonth otherYearMonth cal settings
             = CreateTemporalDuration env d
        \<and> Difference_steps_8_17 env Since yearMonth otherYearMonth cal settings
             = CreateTemporalDuration env (negate d))"
  unfolding Difference_steps_8_17_def Let_def
  by (auto split: sum.splits)

text \<open>
  Claim C3, as amended. With the same receiver and the same other argument, and options
  that resolve to the same settings for both operations, since returns the result of
  until with every field of the duration negated, and fails where until fails.
\<close>

theorem since_negates_until:
  fixes env :: "('o, 'x) collaborators"
  assumes settings:
    "Difference_settings env Since opts = Difference_settings env Until opts'"
  shows "((\<exists>e. PlainYearMonth_until env yearMonth item opts' = Inl e
             \<and> PlainYearMonth_since env yearMonth item opts = Inl e)
          \<or> (\<exists>d. PlainYearMonth_until env yearMonth item opts' = CreateTemporalDuration env d
             \<and> PlainYearMonth_since env yearMonth item opts
                  = CreateTemporalDuration env (negate d)))
       \<and> (\<forall>d. PlainYearMonth_until env yearMonth item opts' = Inr d \<longrightarrow>
             PlainYearMonth_since env yearMonth item opts
               = CreateTemporalDuration env (negate d))"
proof -
  let ?U = "PlainYearMonth_until env yearMonth item opts'"
  let ?S = "PlainYearMonth_since env yearMonth item opts"
  have zero: "negate (Duration_of 0 0) = Duration_of 0 0"
    by (simp add: negate_Duration_of)
  have main: "(\<exists>e. ?U = Inl e \<and> ?S = Inl e)
       \<or> (\<exists>d. ?U = CreateTemporalDuration env d \<and> ?S = CreateTemporalDuration env (negate d))"
  proof (cases "ToTemporalYearMonth_constrain env item")
    case (Inl e)
    then show ?thesis
      by (simp add: PlainYearMonth_until_def PlainYearMonth_since_def
            DifferenceTemporalPlainYearMonth_def)
  next
    case conv: (Inr other)
    show ?thesis
    proof (cases "Difference_otherYearMonth item other :: 'x error + 'o JSObject")
      case (Inl e)
      with conv show ?thesis
        by (simp add: PlainYearMonth_until_def PlainYearMonth_since_def
              DifferenceTemporalPlainYearMonth_def)
    next
      case obj: (Inr otherYearMonth)
      show ?thesis
      proof (cases "CalendarEquals (calendar yearMonth) (calendar other)")
        case False
        with conv obj show ?thesis
          by (simp add: PlainYearMonth_until_def PlainYearMonth_since_def
                DifferenceTemporalPlainYearMonth_def)
      next
        case eq: True
        show ?thesis
        proof (cases "Difference_settings env Until opts'")
          case (Inl e)
          with conv obj eq settings show ?thesis
            by (simp add: PlainYearMonth_until_def PlainYearMonth_since_def
                  DifferenceTemporalPlainYearMonth_def)
        next
          case s: (Inr st)
          show ?thesis
          proof (cases "ToPlainDate yearMonth = ToPlainDate other")
            case True
            with conv obj eq settings s zero show ?thesis
              by (auto simp: PlainYearMonth_until_def PlainYearMonth_since_def
                    DifferenceTemporalPlainYearMonth_def)
          next
            case False
            with conv obj eq settings s
              Difference_steps_8_17_since_until [of env yearMonth otherYearMonth
                "calendar yearMonth" st]
            show ?thesis
              by (simp add: PlainYearMonth_until_def PlainYearMonth_since_def
                    DifferenceTemporalPlainYearMonth_def)
          qed
        qed
      qed
    qed
  qed
  have "\<forall>d. ?U = Inr d \<longrightarrow> ?S = CreateTemporalDuration env (negate d)"
  proof (intro allI impI)
    fix d assume u: "?U = Inr d"
    with main obtain d' where d': "?U = CreateTemporalDuration env d'"
      "?S = CreateTemporalDuration env (negate d')" by auto
    from u d'(1) have "d' = d" by (metis CreateTemporalDuration_Inr)
    with d'(2) show "?S = CreateTemporalDuration env (negate d)" by simp
  qed
  with main show ?thesis by blast
qed

theorem since_negates_until_witness:
  "PlainYearMonth_until host (iso_year_month 2020 1) (iso_year_month_value 2021 3)
     (ObjectValue (OtherObject (DifferenceOptions (Some ''year'') None None None)))
     = Inr (Duration_of 1 2)
   \<and> PlainYearMonth_since host (iso_year_month 2020 1) (iso_year_month_value 2021 3)
       (ObjectValue (OtherObject (DifferenceOptions (Some ''year'') None None None)))
     = Inr (Duration_of (- 1) (- 2))"
proof -
  let ?opts = "ObjectValue (OtherObject (DifferenceOptions (Some ''year'') None None None))"
  have s: "Difference_settings host Since ?opts = Difference_settings host Until ?opts"
    by code_simp
  have u: "PlainYearMonth_until host (iso_year_month 2020 1) (iso_year_month_value 2021 3) ?opts
             = Inr (Duration_of 1 2)"
    by code_simp
  have c: "CreateTemporalDuration host (negate (Duration_of 1 2)) = Inr (Duration_of (- 1) (- 2))"
    by code_simp
  from since_negates_until [OF s, of "iso_year_month 2020 1" "iso_year_month_value 2021 3"] u c
  show ?thesis by simp
qed

text \<open>
  The claim as stated fails: with largest unit year, 2020-01 until 2021-03 is one year
  and two months, and so is 2021-03 since 2020-01; the negation of the latter is not
  the former.
\<close>

theorem until_since_swapped_counterexample:
  "PlainYearMonth_until host (iso_year_month 2020 1) (iso_year_month_value 2021 3)
     (ObjectValue (OtherObject (DifferenceOptions (Some ''year'') None None None)))
   \<noteq> map_sum id negate
       (PlainYearMonth_since host (iso_year_month 2021 3) (iso_year_month_value 2020 1)
          (ObjectValue (OtherObject (DifferenceOptions (Some ''year'') None None None))))"
  by code_simp

section \<open>Conversion: properties\<close>

text \<open>
  Claim C5. A string is parsed as a year-month, its calendar is the one of the
  annotation, ISO 8601 without one, and the parsed year-month is run through
  \<^verbatim>\<open>CalendarYearMonthFromFields\<close> with overflow constrain; the overflow given by the caller
  does not change the result.
\<close>

theorem ToTemporalYearMonth_string_constrain:
  fixes env :: "('o, 'x) collaborators"
  shows "ToTemporalYearMonth env (StringValue str) overflow
     = ToTemporalYearMonth env (StringValue str) Constrain
   \<and> (ParseTemporalYearMonthString env str = Inr (d, None)
        \<and> IsValidISODate (year d) (month d) (day d)
        \<and> ISOYearMonthWithinLimits (year d) (month d) \<longrightarrow>
      ToTemporalYearMonth env (StringValue str) overflow
        = call (CalendarYearMonthFromFields_object env ISO8601
                  (PlainYearMonthObject (PlainYearMonthWithCalendar d ISO8601)) Constrain))
   \<and> (ParseTemporalYearMonthString env str = Inr (d, Some cs)
        \<and> ToBuiltinCalendar env cs = Inr cal
        \<and> IsValidISODate (year d) (month d) (day d)
        \<and> ISOYearMonthWithinLimits (year d) (month d) \<longrightarrow>
      ToTemporalYearMonth env (StringValue str) overflow
        = call (CalendarYearMonthFromFields_object env cal
                  (PlainYearMonthObject (PlainYearMonthWithCalendar d cal)) Constrain))
   \<and> (GetTemporalOverflowOption env options Constrain = Inr overflow \<longrightarrow>
      PlainYearMonth_from env (StringValue str) (ObjectValue options)
        = PlainYearMonth_from env (StringValue str) UndefinedValue)"
  by (simp add: ToTemporalYearMonth_def call_def PlainYearMonth_from_def hasDefined_def
        RequireObjectArg_def CreateTemporalYearMonth_date_valid)

theorem ToTemporalYearMonth_string_constrain_witness:
  "ToTemporalYearMonth host (StringValue ''2024-06'') Reject = Inr (iso_year_month 2024 6)
   \<and> ToTemporalYearMonth host (StringValue ''2024-06[u-ca=iso8601]'') Reject
       = Inr (iso_year_month 2024 6)
   \<and> PlainYearMonth_from host (StringValue ''2024-06'')
        (ObjectValue (OtherObject (OverflowOptions (Some ''reject''))))
       = Inr (iso_year_month 2024 6)"
proof -
  let ?d = "\<lparr>year = 2024, month = 6, day = 1\<rparr>"
  have v: "IsValidISODate (year ?d) (month ?d) (day ?d)"
      "ISOYearMonthWithinLimits (year ?d) (month ?d)"
    by (simp_all add: IsValidISODate_def ISODaysInMonth_def ISOYearMonthWithinLimits_def)
  have p1: "ParseTemporalYearMonthString host ''2024-06'' = Inr (?d, None)"
    by code_simp
  have p2: "ParseTemporalYearMonthString host ''2024-06[u-ca=iso8601]''
              = Inr (?d, Some ''iso8601'')"
    by code_simp
  have b: "ToBuiltinCalendar host ''iso8601'' = Inr ISO8601"
    by code_simp
  have o: "GetTemporalOverflowOption host (OtherObject (OverflowOptions (Some ''reject'')))
             Constrain = Inr Reject"
    by code_simp
  have n: "call (CalendarYearMonthFromFields_object host ISO8601
                   (PlainYearMonthObject (PlainYearMonthWithCalendar ?d ISO8601)) Constrain)
             = Inr (iso_year_month 2024 6)"
    by code_simp
  have f: "PlainYearMonth_from host (StringValue ''2024-06'') UndefinedValue
             = Inr (iso_year_month 2024 6)"
    by code_simp
  have 1: "ToTemporalYearMonth host (StringValue ''2024-06'') Reject
             = Inr (iso_year_month 2024 6)"
    using ToTemporalYearMonth_string_constrain
            [where env = host and str = "''2024-06''" and overflow = Reject and d = ?d
               and cs = "''iso8601''" and cal = ISO8601
               and options = "OtherObject (OverflowOptions (Some ''reject''))"]
          v p1 n
    by metis
  have 2: "ToTemporalYearMonth host (StringValue ''2024-06[u-ca=iso8601]'') Reject
             = Inr (iso_year_month 2024 6)"
    using ToTemporalYearMonth_string_constrain
            [where env = host and str = "''2024-06[u-ca=iso8601]''" and overflow = Reject
               and d = ?d and cs = "''iso8601''" and cal = ISO8601
               and options = "OtherObject (OverflowOptions (Some ''reject''))"]
          v p2 b n
    by metis
  have 3: "PlainYearMonth_from host (StringValue ''2024-06'')
             (ObjectValue (OtherObject (OverflowOptions (Some ''reject''))))
             = Inr (iso_year_month 2024 6)"
    using ToTemporalYearMonth_string_constrain
            [where env = host and str = "''2024-06''" and overflow = Reject and d = ?d
               and cs = "''iso8601''" and cal = ISO8601
               and options = "OtherObject (OverflowOptions (Some ''reject''))"]
          o f
    by metis
  from 1 2 3 show ?thesis by simp
qed

section \<open>Arithmetic: properties\<close>

lemma AddSubtract_overflow_cases:
  "(opts = UndefinedValue \<and> overflow = Constrain)
   \<or> (\<exists>options. opts = ObjectValue options
         \<and> GetTemporalOverflowOption env options Constrain = Inr overflow) \<Longrightarrow>
   AddSubtract_overflow env opts = Inr overflow"
  by (auto simp: AddSubtract_overflow_def hasDefined_def RequireObjectArg_def call_def)

lemma AddSubtract_to_anchor:
  fixes env :: "('o, 'x) collaborators"
  assumes given: "ToTemporalDurationRecord env item = Inr duration0"
      and negated: "duration =
             (if operation = Subtract
              then \<lparr>years = - years duration0, months = - months duration0,
                    weeks = - weeks duration0, days = - days duration0,
                    hours = - hours duration0, minutes = - minutes duration0,
                    seconds = - seconds duration0, milliseconds = - milliseconds duration0,
                    microseconds = - microseconds duration0,
                    nanoseconds = - nanoseconds duration0\<rparr>
              else duration0)"
      and overflow: "(opts = UndefinedValue \<and> overflow = Constrain)
             \<or> (\<exists>options. opts = ObjectValue options
                   \<and> GetTemporalOverflowOption env options Constrain = Inr overflow)"
      and balanced: "durationToAdd =
             DateDuration (years duration) (months duration) (weeks duration)
               (days duration
                  + balanced_days (BalanceTimeDuration env (NormalizeTimeDuration env duration)
                                     Day))"
      and prepared: "PrepareCalendarFieldsAndFieldNames env (calendar yearMonth)
             (PlainYearMonthObject yearMonth)
             [CalendarField_MonthCode, CalendarField_Year] = Inr fs"
      and first: "CalendarDateFromFields env (calendar yearMonth) (fs\<lparr>day_field := Some 1\<rparr>)
             Constrain = Inr intermediateDate"
  shows "AddDurationToOrSubtractDurationFromPlainYearMonth env operation yearMonth item opts =
     (case AddSubtract_steps_14_15 env (calendar yearMonth) intermediateDate fs
             (DurationSign durationToAdd) of
        Inl e \<Rightarrow> Inl e
      | Inr d \<Rightarrow>
          AddSubtract_steps_17_19 env (calendar yearMonth) d durationToAdd overflow (keys fs))"
proof -
  have n: "duration = (if operation = Subtract then negate duration0 else duration0)"
    using negated by (simp add: negate_def)
  show ?thesis
    using given prepared first AddSubtract_overflow_cases [OF overflow]
    unfolding balanced n
    by (simp add: AddDurationToOrSubtractDurationFromPlainYearMonth_def Let_def call_def
          AddSubtract_durationToAdd_def setDay_def)
qed

lemma AddSubtract_steps_17_19_explicit:
  "AddSubtract_steps_17_19 env cal d durationToAdd overflow fieldNames =
     (case AddDate env cal d durationToAdd overflow of
        Inl x \<Rightarrow> Inl (Thrown x)
      | Inr addedDate \<Rightarrow>
         (case CreateTemporalDate env addedDate cal of
            Inl x \<Rightarrow> Inl (Thrown x)
          | Inr addedDateObj \<Rightarrow>
             (case PrepareTemporalFields env (PlainDateObject addedDateObj) fieldNames of
                Inl x \<Rightarrow> Inl (Thrown x)
              | Inr addedDateFields \<Rightarrow>
                 (case CalendarYearMonthFromFields env cal addedDateFields overflow of
                    Inl x \<Rightarrow> Inl (Thrown x)
                  | Inr result \<Rightarrow> CreateTemporalYearMonth_ym result))))"
  by (simp add: AddSubtract_steps_17_19_def call_def split: sum.splits)

text \<open>
  Claim C1. The duration, negated field by field for subtract, has its time balanced
  into days, which are added to its days. When the sign of this date duration is
  negative, the date that \<^verbatim>\<open>AddDate\<close> receives is the last day of the month: one month after
  the first day (\<^verbatim>\<open>CalendarDateAdd\<close>), less one ISO day (\<^verbatim>\<open>BalanceISODate\<close>), made a date of
  the calendar, whose day of month (\<^verbatim>\<open>CalendarDay\<close>) is stored as the day of the copied
  fields, from which \<^verbatim>\<open>CalendarDateFromFields\<close> with constrain gives the date. When the sign
  is zero or positive, \<^verbatim>\<open>AddDate\<close> receives the first day of the month. The year and month
  of the date added to are the result. \<^verbatim>\<open>PlainYearMonth_add\<close> and \<^verbatim>\<open>PlainYearMonth_subtract\<close>
  are this operation.
\<close>

theorem AddSubtract_end_of_month_anchor:
  fixes env :: "('o, 'x) collaborators"
  assumes given: "ToTemporalDurationRecord env item = Inr duration0"
      and negated: "duration =
             (if operation = Subtract
              then \<lparr>years = - years duration0, months = - months duration0,
                    weeks = - weeks duration0, days = - days duration0,
                    hours = - hours duration0, minutes = - minutes duration0,
                    seconds = - seconds duration0, milliseconds = - milliseconds duration0,
                    microseconds = - microseconds duration0,
                    nanoseconds = - nanoseconds duration0\<rparr>
              else duration0)"
      and overflow: "(opts = UndefinedValue \<and> overflow = Constrain)
             \<or> (\<exists>options. opts = ObjectValue options
                   \<and> GetTemporalOverflowOption env options Constrain = Inr overflow)"
      and balanced: "durationToAdd =
             DateDuration (years duration) (months duration) (weeks duration)
               (days duration
                  + balanced_days (BalanceTimeDuration env (NormalizeTimeDuration env duration)
                                     Day))"
      and prepared: "PrepareCalendarFieldsAndFieldNames env (calendar yearMonth)
             (PlainYearMonthObject yearMonth)
             [CalendarField_MonthCode, CalendarField_Year] = Inr fs"
      and first: "CalendarDateFromFields env (calendar yearMonth) (fs\<lparr>day_field := Some 1\<rparr>)
             Constrain = Inr intermediateDate"
  shows "(DurationSign durationToAdd < 0
          \<and> CalendarDateAdd env (calendar yearMonth) intermediateDate (DateDuration 0 1 0 0)
               Constrain = Inr nextMonth
          \<and> CreateTemporalDate env
               (BalanceISODate env (year nextMonth) (month nextMonth) (day nextMonth - 1))
               (calendar yearMonth) = Inr endOfMonth
          \<and> CalendarDay env (calendar yearMonth) (date_of endOfMonth) = Inr lastDay
          \<and> CalendarDateFromFields env (calendar yearMonth) (fs\<lparr>day_field := Some lastDay\<rparr>)
               Constrain = Inr anchor \<longrightarrow>
          AddDurationToOrSubtractDurationFromPlainYearMonth env operation yearMonth item opts =
            (case AddDate env (calendar yearMonth) anchor durationToAdd overflow of
               Inl x \<Rightarrow> Inl (Thrown x)
             | Inr addedDate \<Rightarrow>
                (case CreateTemporalDate env addedDate (calendar yearMonth) of
                   Inl x \<Rightarrow> Inl (Thrown x)
                 | Inr addedDateObj \<Rightarrow>
                    (case PrepareTemporalFields env (PlainDateObject addedDateObj) (keys fs) of
                       Inl x \<Rightarrow> Inl (Thrown x)
                     | Inr addedDateFields \<Rightarrow>
                        (case CalendarYearMonthFromFields env (calendar yearMonth)
                                addedDateFields overflow of
                           Inl x \<Rightarrow> Inl (Thrown x)
                         | Inr result \<Rightarrow> CreateTemporalYearMonth_ym result)))))
       \<and> (0 \<le> DurationSign durationToAdd \<longrightarrow>
          AddDurationToOrSubtractDurationFromPlainYearMonth env operation yearMonth item opts =
            (case AddDate env (calendar yearMonth) intermediateDate durationToAdd overflow of
               Inl x \<Rightarrow> Inl (Thrown x)
             | Inr addedDate \<Rightarrow>
                (case CreateTemporalDate env addedDate (calendar yearMonth) of
                   Inl x \<Rightarrow> Inl (Thrown x)
                 | Inr addedDateObj \<Rightarrow>
                    (case PrepareTemporalFields env (PlainDateObject addedDateObj) (keys fs) of
                       Inl x \<Rightarrow> Inl (Thrown x)
                     | Inr addedDateFields \<Rightarrow>
                        (case CalendarYearMonthFromFields env (calendar yearMonth)
                                addedDateFields overflow of
                           Inl x \<Rightarrow> Inl (Thrown x)
                         | Inr result \<Rightarrow> CreateTemporalYearMonth_ym result)))))
       \<and> PlainYearMonth_add env yearMonth item opts
           = AddDurationToOrSubtractDurationFromPlainYearMonth env Add yearMonth item opts
       \<and> PlainYearMonth_subtract env yearMonth item opts
           = AddDurationToOrSubtractDurationFromPlainYearMonth env Subtract yearMonth item opts"
  unfolding AddSubtract_to_anchor [OF given negated overflow balanced prepared first]
    AddSubtract_steps_17_19_explicit [symmetric]
  by (simp add: AddSubtract_steps_14_15_def Let_def call_def setDay_def
        PlainYearMonth_add_def PlainYearMonth_subtract_def
        AddSubtract_to_anchor [OF given negated overflow balanced prepared first])


theorem AddSubtract_end_of_month_anchor_witness:
  "PlainYearMonth_subtract host
     (PlainYearMonthWithCalendar \<lparr>year = 2020, month = 2, day = 1\<rparr> (CalendarValue ''iso8601''))
     (ObjectValue (OtherObject
        (DurationLike None None None (Some 1) None None None None None None)))
     UndefinedValue
     = Inr (PlainYearMonthWithCalendar \<lparr>year = 2020, month = 2, day = 1\<rparr>
              (CalendarValue ''iso8601''))
   \<and> PlainYearMonth_subtract host
       (PlainYearMonthWithCalendar \<lparr>year = 2020, month = 3, day = 1\<rparr> (CalendarValue ''iso8601''))
       (ObjectValue (OtherObject
          (DurationLike None None None None (Some 744) None None None None None)))
       UndefinedValue
     = Inr (PlainYearMonthWithCalendar \<lparr>year = 2020, month = 2, day = 1\<rparr>
              (CalendarValue ''iso8601''))
   \<and> PlainYearMonth_add host
       (PlainYearMonthWithCalendar \<lparr>year = 2020, month = 3, day = 1\<rparr> (CalendarValue ''iso8601''))
       (ObjectValue (OtherObject
          (DurationLike None None None (Some 30) (Some 24) None None None None None)))
       (ObjectValue (OtherObject (OverflowOptions (Some ''reject''))))
     = Inr (PlainYearMonthWithCalendar \<lparr>year = 2020, month = 4, day = 1\<rparr>
              (CalendarValue ''iso8601''))"
proof -
  let ?cal = "CalendarValue ''iso8601''"
  let ?feb = "PlainYearMonthWithCalendar \<lparr>year = 2020, month = 2, day = 1\<rparr> ?cal"
  let ?mar = "PlainYearMonthWithCalendar \<lparr>year = 2020, month = 3, day = 1\<rparr> ?cal"
  let ?apr = "PlainYearMonthWithCalendar \<lparr>year = 2020, month = 4, day = 1\<rparr> ?cal"
  let ?day = "ObjectValue (OtherObject
                (DurationLike None None None (Some 1) None None None None None None))
              :: PlainObject Value"
  let ?hours = "ObjectValue (OtherObject
                  (DurationLike None None None None (Some 744) None None None None None))
                :: PlainObject Value"
  let ?mixed = "ObjectValue (OtherObject
                  (DurationLike None None None (Some 30) (Some 24) None None None None None))
                :: PlainObject Value"
  let ?reject = "OtherObject (OverflowOptions (Some ''reject''))"
  let ?P1D = "\<lparr>years = 0, months = 0, weeks = 0, days = 1, hours = 0, minutes = 0,
               seconds = 0, milliseconds = 0, microseconds = 0, nanoseconds = 0\<rparr>"
  let ?PT744H = "\<lparr>years = 0, months = 0, weeks = 0, days = 0, hours = 744, minutes = 0,
                  seconds = 0, milliseconds = 0, microseconds = 0, nanoseconds = 0\<rparr>"
  let ?P30DT24H = "\<lparr>years = 0, months = 0, weeks = 0, days = 30, hours = 24, minutes = 0,
                    seconds = 0, milliseconds = 0, microseconds = 0, nanoseconds = 0\<rparr>"
  let ?N1D = "\<lparr>years = - 0, months = - 0, weeks = - 0, days = - 1, hours = - 0,
               minutes = - 0, seconds = - 0, milliseconds = - 0, microseconds = - 0,
               nanoseconds = - 0\<rparr> :: Duration"
  let ?NT744H = "\<lparr>years = - 0, months = - 0, weeks = - 0, days = - 0, hours = - 744,
                  minutes = - 0, seconds = - 0, milliseconds = - 0, microseconds = - 0,
                  nanoseconds = - 0\<rparr> :: Duration"
  let ?febFields = "\<lparr>year_field = Some 2020, month_field = None,
       monthCode_field = Some ''M02'', day_field = None, era_field = None,
       eraYear_field = None\<rparr>"
  let ?marFields = "\<lparr>year_field = Some 2020, month_field = None,
       monthCode_field = Some ''M03'', day_field = None, era_field = None,
       eraYear_field = None\<rparr>"
  let ?aprFields = "\<lparr>year_field = Some 2020, month_field = None,
       monthCode_field = Some ''M04'', day_field = None, era_field = None,
       eraYear_field = None\<rparr>"
  let ?feb1 = "PlainDateWithCalendar \<lparr>year = 2020, month = 2, day = 1\<rparr> ?cal"
  let ?feb28 = "PlainDateWithCalendar \<lparr>year = 2020, month = 2, day = 28\<rparr> ?cal"
  let ?feb29 = "PlainDateWithCalendar \<lparr>year = 2020, month = 2, day = 29\<rparr> ?cal"
  let ?mar1 = "PlainDateWithCalendar \<lparr>year = 2020, month = 3, day = 1\<rparr> ?cal"
  let ?mar31 = "PlainDateWithCalendar \<lparr>year = 2020, month = 3, day = 31\<rparr> ?cal"
  let ?apr1 = "PlainDateWithCalendar \<lparr>year = 2020, month = 4, day = 1\<rparr> ?cal"
  have cal: "calendar ?feb = ?cal" "calendar ?mar = ?cal"
    by simp_all
  have keys: "keys ?febFields = [TemporalField_Year, TemporalField_MonthCode]"
    "keys ?marFields = [TemporalField_Year, TemporalField_MonthCode]"
    by (simp_all add: keys_def has_def)
  have g1: "ToTemporalDurationRecord host ?day = Inr ?P1D"
    and g2: "ToTemporalDurationRecord host ?hours = Inr ?PT744H"
    and g3: "ToTemporalDurationRecord host ?mixed = Inr ?P30DT24H"
    by code_simp+
  have n1: "?N1D =
      (if Subtract = Subtract
       then \<lparr>years = - years ?P1D, months = - months ?P1D, weeks = - weeks ?P1D,
             days = - days ?P1D, hours = - hours ?P1D, minutes = - minutes ?P1D,
             seconds = - seconds ?P1D, milliseconds = - milliseconds ?P1D,
             microseconds = - microseconds ?P1D, nanoseconds = - nanoseconds ?P1D\<rparr>
       else ?P1D)"
    by simp
  have n2: "?NT744H =
      (if Subtract = Subtract
       then \<lparr>years = - years ?PT744H, months = - months ?PT744H, weeks = - weeks ?PT744H,
             days = - days ?PT744H, hours = - hours ?PT744H, minutes = - minutes ?PT744H,
             seconds = - seconds ?PT744H, milliseconds = - milliseconds ?PT744H,
             microseconds = - microseconds ?PT744H, nanoseconds = - nanoseconds ?PT744H\<rparr>
       else ?PT744H)"
    by simp
  have n3: "?P30DT24H =
      (if Add = Subtract
       then \<lparr>years = - years ?P30DT24H, months = - months ?P30DT24H,
             weeks = - weeks ?P30DT24H, days = - days ?P30DT24H, hours = - hours ?P30DT24H,
             minutes = - minutes ?P30DT24H, seconds = - seconds ?P30DT24H,
             milliseconds = - milliseconds ?P30DT24H,
             microseconds = - microseconds ?P30DT24H,
             nanoseconds = - nanoseconds ?P30DT24H\<rparr>
       else ?P30DT24H)"
    by simp
  have o1: "((UndefinedValue :: PlainObject Value) = UndefinedValue \<and> Constrain = Constrain)
      \<or> (\<exists>options. (UndefinedValue :: PlainObject Value) = ObjectValue options
            \<and> GetTemporalOverflowOption host options Constrain = Inr Constrain)"
    by simp
  have r3: "GetTemporalOverflowOption host ?reject Constrain = Inr Reject"
    by code_simp
  have o3: "(ObjectValue ?reject = UndefinedValue \<and> Reject = Constrain)
      \<or> (\<exists>options. ObjectValue ?reject = ObjectValue options
            \<and> GetTemporalOverflowOption host options Constrain = Inr Reject)"
    using r3 by simp
  have b1: "DateDuration 0 0 0 (- 1) =
      DateDuration (years ?N1D) (months ?N1D) (weeks ?N1D)
        (days ?N1D + balanced_days (BalanceTimeDuration host (NormalizeTimeDuration host ?N1D)
                                      Day))"
    by code_simp
  have b2: "DateDuration 0 0 0 (- 31) =
      DateDuration (years ?NT744H) (months ?NT744H) (weeks ?NT744H)
        (days ?NT744H
           + balanced_days (BalanceTimeDuration host (NormalizeTimeDuration host ?NT744H) Day))"
    by code_simp
  have b3: "DateDuration 0 0 0 31 =
      DateDuration (years ?P30DT24H) (months ?P30DT24H) (weeks ?P30DT24H)
        (days ?P30DT24H
           + balanced_days (BalanceTimeDuration host (NormalizeTimeDuration host ?P30DT24H)
                              Day))"
    by code_simp
  have pf: "PrepareCalendarFieldsAndFieldNames host (calendar ?feb) (PlainYearMonthObject ?feb)
              [CalendarField_MonthCode, CalendarField_Year] = Inr ?febFields"
    and pm: "PrepareCalendarFieldsAndFieldNames host (calendar ?mar) (PlainYearMonthObject ?mar)
              [CalendarField_MonthCode, CalendarField_Year] = Inr ?marFields"
    by code_simp+
  have ff: "CalendarDateFromFields host (calendar ?feb) (?febFields\<lparr>day_field := Some 1\<rparr>)
              Constrain = Inr ?feb1"
    and fm: "CalendarDateFromFields host (calendar ?mar) (?marFields\<lparr>day_field := Some 1\<rparr>)
              Constrain = Inr ?mar1"
    by code_simp+
  have s1: "DurationSign (DateDuration 0 0 0 (- 1)) < 0"
    and s2: "DurationSign (DateDuration 0 0 0 (- 31)) < 0"
    and s3: "0 \<le> DurationSign (DateDuration 0 0 0 31)"
    by (simp_all add: DurationSign_def)
  have next1: "CalendarDateAdd host ?cal ?feb1 (DateDuration 0 1 0 0) Constrain
                 = Inr \<lparr>year = 2020, month = 3, day = 1\<rparr>"
    and next2: "CalendarDateAdd host ?cal ?mar1 (DateDuration 0 1 0 0) Constrain
                 = Inr \<lparr>year = 2020, month = 4, day = 1\<rparr>"
    by code_simp+
  have end1: "CreateTemporalDate host (BalanceISODate host 2020 3 (1 - 1)) ?cal = Inr ?feb29"
    and end2: "CreateTemporalDate host (BalanceISODate host 2020 4 (1 - 1)) ?cal = Inr ?mar31"
    by code_simp+
  have last1: "CalendarDay host ?cal (date_of ?feb29) = Inr 29"
    and last2: "CalendarDay host ?cal (date_of ?mar31) = Inr 31"
    by code_simp+
  have anchor1: "CalendarDateFromFields host ?cal (?febFields\<lparr>day_field := Some 29\<rparr>)
                   Constrain = Inr ?feb29"
    and anchor2: "CalendarDateFromFields host ?cal (?marFields\<lparr>day_field := Some 31\<rparr>)
                   Constrain = Inr ?mar31"
    by code_simp+
  have add1: "AddDate host ?cal ?feb29 (DateDuration 0 0 0 (- 1)) Constrain
                = Inr \<lparr>year = 2020, month = 2, day = 28\<rparr>"
    and add2: "AddDate host ?cal ?mar31 (DateDuration 0 0 0 (- 31)) Constrain
                = Inr \<lparr>year = 2020, month = 2, day = 29\<rparr>"
    and add3: "AddDate host ?cal ?mar1 (DateDuration 0 0 0 31) Reject
                = Inr \<lparr>year = 2020, month = 4, day = 1\<rparr>"
    by code_simp+
  have obj1: "CreateTemporalDate host \<lparr>year = 2020, month = 2, day = 28\<rparr> ?cal = Inr ?feb28"
    and obj2: "CreateTemporalDate host \<lparr>year = 2020, month = 2, day = 29\<rparr> ?cal = Inr ?feb29"
    and obj3: "CreateTemporalDate host \<lparr>year = 2020, month = 4, day = 1\<rparr> ?cal = Inr ?apr1"
    by code_simp+
  have fields1: "PrepareTemporalFields host (PlainDateObject ?feb28)
                   [TemporalField_Year, TemporalField_MonthCode] = Inr ?febFields"
    and fields2: "PrepareTemporalFields host (PlainDateObject ?feb29)
                   [TemporalField_Year, TemporalField_MonthCode] = Inr ?febFields"
    and fields3: "PrepareTemporalFields host (PlainDateObject ?apr1)
                   [TemporalField_Year, TemporalField_MonthCode] = Inr ?aprFields"
    by code_simp+
  have ym1: "CalendarYearMonthFromFields host ?cal ?febFields Constrain = Inr ?feb"
    and ym3: "CalendarYearMonthFromFields host ?cal ?aprFields Reject = Inr ?apr"
    by code_simp+
  have create: "CreateTemporalYearMonth_ym ?feb = (Inr ?feb :: exception error + _)"
    "CreateTemporalYearMonth_ym ?apr = (Inr ?apr :: exception error + _)"
    by code_simp+
  have 1: "PlainYearMonth_subtract host ?feb ?day UndefinedValue = Inr ?feb"
    using AddSubtract_end_of_month_anchor [OF g1 n1 o1 b1 pf ff,
            where nextMonth = "\<lparr>year = 2020, month = 3, day = 1\<rparr>" and endOfMonth = ?feb29
              and lastDay = 29 and anchor = ?feb29]
          s1 next1 end1 last1 anchor1 add1 obj1 fields1 ym1 create keys cal
    by simp
  have 2: "PlainYearMonth_subtract host ?mar ?hours UndefinedValue = Inr ?feb"
    using AddSubtract_end_of_month_anchor [OF g2 n2 o1 b2 pm fm,
            where nextMonth = "\<lparr>year = 2020, month = 4, day = 1\<rparr>" and endOfMonth = ?mar31
              and lastDay = 31 and anchor = ?mar31]
          s2 next2 end2 last2 anchor2 add2 obj2 fields2 ym1 create keys cal
    by simp
  have 3: "PlainYearMonth_add host ?mar ?mixed (ObjectValue ?reject) = Inr ?apr"
    using AddSubtract_end_of_month_anchor [OF g3 n3 o3 b3 pm fm]
          s3 add3 obj3 fields3 ym3 create keys cal
    by simp
  from 1 2 3 show ?thesis by simp
qed

end
